theory Spec2Isabelle
  imports Main "HOL-Library.Word"
begin

unbundle bit_operations_syntax

section \<open>The debug transport and what an observer sees of it\<close>

text \<open>
  The drivers of \<^verbatim>\<open>stm32l0.c\<close> and of the LPC546xx file reach the chip only through the
  target layer: \<^verbatim>\<open>target_mem32_write32\<close>, \<^verbatim>\<open>target_mem32_read32\<close>,
  \<^verbatim>\<open>target_check_error\<close>, \<^verbatim>\<open>target_reset\<close> and so on. That layer is not part of the
  two source files, so the device behind it is a parameter: a state type \<open>'d\<close> and one
  function per transport call (record \<open>env\<close>). Every call is also appended to a trace
  of events, in program order, so that the order and the arguments of the register
  accesses can be stated.

  \<^verbatim>\<open>uint32_t\<close>, \<^verbatim>\<open>target_addr_t\<close> and \<^verbatim>\<open>size_t\<close> are 32-bit words (the probe firmware is
  a 32-bit Cortex-M build), \<^verbatim>\<open>uint16_t\<close> is a 16-bit word.
\<close>

type_synonym word32 = "32 word"
type_synonym target_addr = "32 word"

datatype printf_arg = Arg_str string | Arg_u32 word32 | Arg_int int | Arg_nat nat

datatype event =
    Mem_write32 target_addr word32
  | Mem_write16 target_addr "16 word"
  | Mem_write8 target_addr "8 word"
  | Mem_write target_addr "8 word list"
  | Mem_read32 target_addr
  | Check_error
  | Print_progress
  | Timeout_set nat
  | Tc_printf string "printf_arg list"
  | Target_reset
  | Target_halt_resume bool
  | Cortexm_attach
  | Lpc_flash_erase target_addr word32
  | Lpc_flash_write_magic_vect target_addr "8 word list" word32

datatype error = Out_of_fuel | Null_pointer | Out_of_bounds

record 'd world =
  dev :: 'd
  trace :: "event list"

datatype erase_fn = Fn_stm32lx_flash_erase | Fn_stm32lx_eeprom_erase | Fn_lpc546xx_flash_erase
datatype write_fn = Fn_stm32lx_flash_write | Fn_stm32lx_eeprom_write | Fn_lpc_flash_write_magic_vect
datatype attach_fn = Fn_cortexm_attach | Fn_stm32l0_attach | Fn_stm32lx_protected_attach
datatype mass_erase_fn =
  Fn_stm32lx_mass_erase | Fn_stm32lx_protected_mass_erase | Fn_lpc546xx_mass_erase

text \<open>\<^verbatim>\<open>target_flash_s\<close> and \<^verbatim>\<open>target_s\<close>, with the fields the two drivers use. A function
  pointer is a tag of the function it points to (\<open>None\<close> is the null pointer).\<close>

record target_flash =
  f_start :: target_addr
  f_length :: word32
  f_blocksize :: word32
  f_writesize :: word32
  f_erase :: "erase_fn option"
  f_write :: "write_fn option"

record target =
  t_driver :: string
  t_part_id :: "16 word"
  t_attach :: "attach_fn option"
  t_mass_erase :: "mass_erase_fn option"
  t_flash :: "target_flash list"
  t_target_storage :: "string option"

text \<open>The calls into code outside the two source files. A write returns \<open>True\<close> on a
  transport error (the source tests \<^verbatim>\<open>if (target_mem32_write32(...)) return false;\<close>);
  \<^verbatim>\<open>lpc_flash_erase\<close> and \<^verbatim>\<open>lpc_flash_write_magic_vect\<close> return \<open>True\<close> on success.
  \<^verbatim>\<open>strtoul\<close> is the C library's, left as a parameter as well; it gives the value of
  the \<^verbatim>\<open>unsigned long\<close> as an integer, which the assignment to a \<^verbatim>\<open>uint32_t\<close> truncates.\<close>

record 'd env =
  e_read32 :: "target_addr \<Rightarrow> 'd \<Rightarrow> word32 \<times> 'd"
  e_write32 :: "target_addr \<Rightarrow> word32 \<Rightarrow> 'd \<Rightarrow> bool \<times> 'd"
  e_write16 :: "target_addr \<Rightarrow> 16 word \<Rightarrow> 'd \<Rightarrow> bool \<times> 'd"
  e_write8 :: "target_addr \<Rightarrow> 8 word \<Rightarrow> 'd \<Rightarrow> bool \<times> 'd"
  e_write :: "target_addr \<Rightarrow> 8 word list \<Rightarrow> 'd \<Rightarrow> bool \<times> 'd"
  e_check_error :: "'d \<Rightarrow> bool \<times> 'd"
  e_reset :: "'d \<Rightarrow> 'd"
  e_halt_resume :: "bool \<Rightarrow> 'd \<Rightarrow> 'd"
  e_cortexm_attach :: "'d \<Rightarrow> bool \<times> 'd"
  e_lpc_flash_erase :: "target_flash \<Rightarrow> target_addr \<Rightarrow> word32 \<Rightarrow> 'd \<Rightarrow> bool \<times> 'd"
  e_lpc_flash_write_magic_vect ::
    "target_flash \<Rightarrow> target_addr \<Rightarrow> 8 word list \<Rightarrow> word32 \<Rightarrow> 'd \<Rightarrow> bool \<times> 'd"
  e_strtoul :: "string \<Rightarrow> int"

definition emit :: "event \<Rightarrow> 'd \<Rightarrow> 'd world \<Rightarrow> 'd world" where
  "emit ev d w = \<lparr>dev = d, trace = trace w @ [ev]\<rparr>"

definition target_mem32_write32 ::
  "'d env \<Rightarrow> target_addr \<Rightarrow> word32 \<Rightarrow> 'd world \<Rightarrow> bool \<times> 'd world" where
  "target_mem32_write32 env a v w =
     (case e_write32 env a v (dev w) of (err, d) \<Rightarrow> (err, emit (Mem_write32 a v) d w))"

definition target_mem32_write16 ::
  "'d env \<Rightarrow> target_addr \<Rightarrow> 16 word \<Rightarrow> 'd world \<Rightarrow> bool \<times> 'd world" where
  "target_mem32_write16 env a v w =
     (case e_write16 env a v (dev w) of (err, d) \<Rightarrow> (err, emit (Mem_write16 a v) d w))"

definition target_mem32_write8 ::
  "'d env \<Rightarrow> target_addr \<Rightarrow> 8 word \<Rightarrow> 'd world \<Rightarrow> bool \<times> 'd world" where
  "target_mem32_write8 env a v w =
     (case e_write8 env a v (dev w) of (err, d) \<Rightarrow> (err, emit (Mem_write8 a v) d w))"

definition target_mem32_write ::
  "'d env \<Rightarrow> target_addr \<Rightarrow> 8 word list \<Rightarrow> 'd world \<Rightarrow> bool \<times> 'd world" where
  "target_mem32_write env a bs w =
     (case e_write env a bs (dev w) of (err, d) \<Rightarrow> (err, emit (Mem_write a bs) d w))"

definition target_mem32_read32 ::
  "'d env \<Rightarrow> target_addr \<Rightarrow> 'd world \<Rightarrow> word32 \<times> 'd world" where
  "target_mem32_read32 env a w =
     (case e_read32 env a (dev w) of (v, d) \<Rightarrow> (v, emit (Mem_read32 a) d w))"

definition target_check_error :: "'d env \<Rightarrow> 'd world \<Rightarrow> bool \<times> 'd world" where
  "target_check_error env w =
     (case e_check_error env (dev w) of (err, d) \<Rightarrow> (err, emit Check_error d w))"

definition target_print_progress :: "'d world \<Rightarrow> 'd world" where
  "target_print_progress w = emit Print_progress (dev w) w"

definition platform_timeout_set :: "nat \<Rightarrow> 'd world \<Rightarrow> 'd world" where
  "platform_timeout_set ms w = emit (Timeout_set ms) (dev w) w"

definition tc_printf :: "string \<Rightarrow> printf_arg list \<Rightarrow> 'd world \<Rightarrow> 'd world" where
  "tc_printf fmt args w = emit (Tc_printf fmt args) (dev w) w"

definition target_reset :: "'d env \<Rightarrow> 'd world \<Rightarrow> 'd world" where
  "target_reset env w = emit Target_reset (e_reset env (dev w)) w"

definition target_halt_resume :: "'d env \<Rightarrow> bool \<Rightarrow> 'd world \<Rightarrow> 'd world" where
  "target_halt_resume env step w = emit (Target_halt_resume step) (e_halt_resume env step (dev w)) w"

definition cortexm_attach :: "'d env \<Rightarrow> 'd world \<Rightarrow> bool \<times> 'd world" where
  "cortexm_attach env w =
     (case e_cortexm_attach env (dev w) of (ok, d) \<Rightarrow> (ok, emit Cortexm_attach d w))"

definition lpc_flash_erase ::
  "'d env \<Rightarrow> target_flash \<Rightarrow> target_addr \<Rightarrow> word32 \<Rightarrow> 'd world \<Rightarrow> bool \<times> 'd world" where
  "lpc_flash_erase env f a len w =
     (case e_lpc_flash_erase env f a len (dev w) of
        (ok, d) \<Rightarrow> (ok, emit (Lpc_flash_erase a len) d w))"

definition lpc_flash_write_magic_vect ::
  "'d env \<Rightarrow> target_flash \<Rightarrow> target_addr \<Rightarrow> 8 word list \<Rightarrow> word32 \<Rightarrow> 'd world
     \<Rightarrow> bool \<times> 'd world" where
  "lpc_flash_write_magic_vect env f a buf len w =
     (case e_lpc_flash_write_magic_vect env f a buf len (dev w) of
        (ok, d) \<Rightarrow> (ok, emit (Lpc_flash_write_magic_vect a buf len) d w))"


text \<open>What a caller observes of a driver call: the error or the returned boolean, and
  the events appended to the trace.\<close>

fun observe :: "error + (bool \<times> 'd world) \<Rightarrow> error + (bool \<times> event list)" where
  "observe (Inl e) = Inl e"
| "observe (Inr (r, w)) = Inr (r, trace w)"

section \<open>A scripted transport for concrete runs\<close>

text \<open>
  A test double for the transport: the device answers the successive reads with the
  words of \<open>reads\<close> (and 0 once they are used up), reports the successive write errors
  of \<open>write_errors\<close> and the successive \<^verbatim>\<open>target_check_error\<close> results of
  \<open>check_errors\<close> (no error once used up). The two ROM-call helpers of the LPC driver
  succeed when the next write error flag is clear. \<open>demo_strtoul\<close> gives the value of
  the few numerals the concrete runs below use.
\<close>

record script =
  reads :: "word32 list"
  write_errors :: "bool list"
  check_errors :: "bool list"

definition script_read :: "script \<Rightarrow> word32 \<times> script" where
  "script_read d = (case reads d of [] \<Rightarrow> (0, d) | v # vs \<Rightarrow> (v, d\<lparr>reads := vs\<rparr>))"

definition script_write :: "script \<Rightarrow> bool \<times> script" where
  "script_write d =
     (case write_errors d of [] \<Rightarrow> (False, d) | e # es \<Rightarrow> (e, d\<lparr>write_errors := es\<rparr>))"

definition script_check :: "script \<Rightarrow> bool \<times> script" where
  "script_check d =
     (case check_errors d of [] \<Rightarrow> (False, d) | e # es \<Rightarrow> (e, d\<lparr>check_errors := es\<rparr>))"

definition script_call :: "script \<Rightarrow> bool \<times> script" where
  "script_call d = (case script_write d of (err, d') \<Rightarrow> (\<not> err, d'))"

definition demo_strtoul :: "string \<Rightarrow> int" where
  "demo_strtoul s =
     (if s = ''0x08080001'' then 0x08080001
      else if s = ''0x08080002'' then 0x08080002
      else if s = ''0x08090000'' then 0x08090000
      else if s = ''0x1ff80000'' then 0x1ff80000
      else if s = ''0x1234abcd'' then 0x1234abcd
      else if s = ''0x1234'' then 0x1234
      else if s = ''3'' then 3
      else 0)"

definition script_env :: "script env" where
  "script_env =
     \<lparr>e_read32 = (\<lambda>a. script_read),
      e_write32 = (\<lambda>a v. script_write),
      e_write16 = (\<lambda>a v. script_write),
      e_write8 = (\<lambda>a v. script_write),
      e_write = (\<lambda>a bs. script_write),
      e_check_error = script_check,
      e_reset = (\<lambda>d. d),
      e_halt_resume = (\<lambda>step d. d),
      e_cortexm_attach = script_call,
      e_lpc_flash_erase = (\<lambda>f a len. script_call),
      e_lpc_flash_write_magic_vect = (\<lambda>f a buf len. script_call),
      e_strtoul = demo_strtoul\<rparr>"

definition script_world :: "word32 list \<Rightarrow> bool list \<Rightarrow> bool list \<Rightarrow> script world" where
  "script_world rs wes ces =
     \<lparr>dev = \<lparr>reads = rs, write_errors = wes, check_errors = ces\<rparr>, trace = []\<rparr>"


section \<open>The LPC546xx driver\<close>

definition LPC546XX_WDT_MODE :: target_addr where "LPC546XX_WDT_MODE = 0x4000c000"
definition LPC546XX_WDT_CNT :: target_addr where "LPC546XX_WDT_CNT = 0x4000c004"
definition LPC546XX_WDT_PERIOD_MAX :: word32 where "LPC546XX_WDT_PERIOD_MAX = 0xffffff"
definition LPC546XX_WDT_PROTECT :: word32 where "LPC546XX_WDT_PROTECT = push_bit 4 1"
definition LPC546XX_MAINCLKSELA :: target_addr where "LPC546XX_MAINCLKSELA = 0x40000280"
definition LPC546XX_MAINCLKSELB :: target_addr where "LPC546XX_MAINCLKSELB = 0x40000284"
definition LPC546XX_AHBCLKDIV :: target_addr where "LPC546XX_AHBCLKDIV = 0x40000380"
definition LPC546XX_FLASHCFG :: target_addr where "LPC546XX_FLASHCFG = 0x40000400"


text \<open>\<^verbatim>\<open>lpc546xx_reset_attach\<close>: reset, \<^verbatim>\<open>target_halt_resume(t, false)\<close>, then
  \<^verbatim>\<open>cortexm_attach(t)\<close> whose result is dropped.\<close>

definition lpc546xx_reset_attach :: "'d env \<Rightarrow> 'd world \<Rightarrow> 'd world" where
  "lpc546xx_reset_attach env w =
     (let w1 = target_reset env w;
          w2 = target_halt_resume env False w1
      in snd (cortexm_attach env w2))"

text \<open>The LPC file calls \<^verbatim>\<open>target_mem_read32\<close> and \<^verbatim>\<open>target_mem_write32\<close>; they are the
  same 32-bit accesses of the transport as the \<^verbatim>\<open>target_mem32_\<close> calls of the STM32 file.\<close>

definition lpc546xx_wdt_set_period :: "'d env \<Rightarrow> 'd world \<Rightarrow> 'd world" where
  "lpc546xx_wdt_set_period env w =
     (case target_mem32_read32 env LPC546XX_WDT_MODE w of
        (wdt_mode, w1) \<Rightarrow>
          if wdt_mode \<noteq> 0 \<and> \<not> (wdt_mode AND LPC546XX_WDT_PROTECT \<noteq> 0)
          then snd (target_mem32_write32 env LPC546XX_WDT_CNT LPC546XX_WDT_PERIOD_MAX w1)
          else w1)"

definition lpc546xx_flash_init :: "'d env \<Rightarrow> 'd world \<Rightarrow> bool \<times> 'd world" where
  "lpc546xx_flash_init env w =
     (let w1 = lpc546xx_reset_attach env w;
          w2 = lpc546xx_wdt_set_period env w1;
          w3 = snd (target_mem32_write32 env LPC546XX_MAINCLKSELA 0 w2);
          w4 = snd (target_mem32_write32 env LPC546XX_MAINCLKSELB 0 w3);
          w5 = snd (target_mem32_write32 env LPC546XX_AHBCLKDIV 0 w4);
          w6 = snd (target_mem32_write32 env LPC546XX_FLASHCFG 0x1a w5)
      in (True, w6))"

definition lpc546xx_flash_erase ::
  "'d env \<Rightarrow> target_flash \<Rightarrow> target_addr \<Rightarrow> word32 \<Rightarrow> 'd world \<Rightarrow> bool \<times> 'd world" where
  "lpc546xx_flash_erase env tf addr len w =
     (case lpc546xx_flash_init env w of
        (ok, w1) \<Rightarrow> if \<not> ok then (False, w1) else lpc_flash_erase env tf addr len w1)"

text \<open>\<^verbatim>\<open>lpc546xx_mass_erase\<close>: the boolean of \<^verbatim>\<open>lpc546xx_flash_erase\<close> is stored in an
  \<^verbatim>\<open>int\<close> (1 for true, 0 for false) and the function returns \<^verbatim>\<open>result == 0\<close>.
  \<^verbatim>\<open>t->flash\<close> is the first region of the list.\<close>

definition lpc546xx_mass_erase :: "'d env \<Rightarrow> target \<Rightarrow> 'd world \<Rightarrow> error + (bool \<times> 'd world)" where
  "lpc546xx_mass_erase env t w =
     (case t_flash t of
        [] \<Rightarrow> Inl Null_pointer
      | f # _ \<Rightarrow>
          (case lpc546xx_flash_erase env f (f_start f) (f_length f) w of
             (res, w1) \<Rightarrow>
               let result = (if res then 1 else 0 :: int);
                   w2 = (if result \<noteq> 0
                         then tc_printf ''Error erasing flash: %d\<newline>'' [Arg_int result] w1
                         else w1)
               in Inr (result = 0, w2)))"

text \<open>The console commands take \<^verbatim>\<open>argc\<close> and \<^verbatim>\<open>argv\<close>; \<^verbatim>\<open>argv[1]\<close> is read only
  under the test \<^verbatim>\<open>argc > 1\<close>, and a read past the end of the list is an error of the
  model.\<close>

definition argv_at :: "string list \<Rightarrow> nat \<Rightarrow> error + string" where
  "argv_at argv i = (if i < length argv then Inr (argv ! i) else Inl Out_of_bounds)"

definition lpc546xx_cmd_erase_sector ::
  "'d env \<Rightarrow> target \<Rightarrow> int \<Rightarrow> string list \<Rightarrow> 'd world \<Rightarrow> error + (bool \<times> 'd world)" where
  "lpc546xx_cmd_erase_sector env t argc argv w =
     (if argc > 1 then
        (case argv_at argv 1 of
           Inl e \<Rightarrow> Inl e
         | Inr arg1 \<Rightarrow>
             (case t_flash t of
                [] \<Rightarrow> Inl Null_pointer
              | f # _ \<Rightarrow>
                  let sector_addr = (word_of_int (e_strtoul env arg1) :: word32);
                      sector_addr' = sector_addr * f_blocksize f
                  in Inr (lpc546xx_flash_erase env f sector_addr' 1 w)))
      else Inr (True, w))"

text \<open>\<^verbatim>\<open>lpc546xx_cmd_write_sector\<close>: the buffer of \<^verbatim>\<open>calloc\<close> is used unchecked, so a
  failed allocation (\<open>calloc_ok = False\<close>) is a null dereference.\<close>

definition lpc546xx_cmd_write_sector ::
  "'d env \<Rightarrow> bool \<Rightarrow> target \<Rightarrow> int \<Rightarrow> string list \<Rightarrow> 'd world \<Rightarrow> error + (bool \<times> 'd world)" where
  "lpc546xx_cmd_write_sector env calloc_ok t argc argv w =
     (if argc > 1 then
        (case argv_at argv 1 of
           Inl e \<Rightarrow> Inl e
         | Inr arg1 \<Rightarrow>
             (case t_flash t of
                [] \<Rightarrow> Inl Null_pointer
              | f # _ \<Rightarrow>
                  let sector_size = f_blocksize f;
                      sector_addr = (word_of_int (e_strtoul env arg1) :: word32) * sector_size
                  in (case lpc546xx_flash_erase env f sector_addr 1 w of
                        (ok, w1) \<Rightarrow>
                          if \<not> ok then Inr (False, w1)
                          else if \<not> calloc_ok \<and> sector_size \<noteq> 0 then Inl Null_pointer
                          else
                            let buf = map (\<lambda>i. (word_of_nat i :: 8 word) AND 0xff)
                                        [0 ..< unat sector_size]
                            in Inr (lpc_flash_write_magic_vect env f sector_addr buf
                                      sector_size w1))))
      else Inr (True, w))"


text \<open>The one flash region \<^verbatim>\<open>lpc546xx_probe\<close> registers for a 256 KiB part, for the
  concrete runs.\<close>

definition lpc_demo_flash :: target_flash where
  "lpc_demo_flash =
     \<lparr>f_start = 0, f_length = 0x40000, f_blocksize = 0x8000, f_writesize = 4096,
      f_erase = Some Fn_lpc546xx_flash_erase, f_write = Some Fn_lpc_flash_write_magic_vect\<rparr>"

definition lpc_demo_target :: target where
  "lpc_demo_target =
     \<lparr>t_driver = ''LPC54605J256'', t_part_id = 0, t_attach = None,
      t_mass_erase = Some Fn_lpc546xx_mass_erase, t_flash = [lpc_demo_flash],
      t_target_storage = None\<rparr>"


section \<open>The STM32L0/L1 driver: registers and constants\<close>

definition STM32Lx_FLASH_BANK_BASE :: target_addr where "STM32Lx_FLASH_BANK_BASE = 0x08000000"
definition STM32Lx_FLASH_OPT_BASE :: target_addr where "STM32Lx_FLASH_OPT_BASE = 0x1ff80000"
definition STM32Lx_FLASH_EEPROM_BASE :: target_addr where "STM32Lx_FLASH_EEPROM_BASE = 0x08080000"
definition STM32L0_FLASH_BASE :: target_addr where "STM32L0_FLASH_BASE = 0x40022000"
definition STM32L1_FLASH_BASE :: target_addr where "STM32L1_FLASH_BASE = 0x40023c00"
definition STM32L0_FLASH_OPT_SIZE :: word32 where "STM32L0_FLASH_OPT_SIZE = 12"
definition STM32L1_FLASH_OPT_SIZE :: word32 where "STM32L1_FLASH_OPT_SIZE = 32"

definition STM32Lx_FLASH_PECR :: "target_addr \<Rightarrow> target_addr" where
  "STM32Lx_FLASH_PECR flash_base = flash_base + 0x04"
definition STM32Lx_FLASH_PEKEYR :: "target_addr \<Rightarrow> target_addr" where
  "STM32Lx_FLASH_PEKEYR flash_base = flash_base + 0x0c"
definition STM32Lx_FLASH_PRGKEYR :: "target_addr \<Rightarrow> target_addr" where
  "STM32Lx_FLASH_PRGKEYR flash_base = flash_base + 0x10"
definition STM32Lx_FLASH_OPTKEYR :: "target_addr \<Rightarrow> target_addr" where
  "STM32Lx_FLASH_OPTKEYR flash_base = flash_base + 0x14"
definition STM32Lx_FLASH_SR :: "target_addr \<Rightarrow> target_addr" where
  "STM32Lx_FLASH_SR flash_base = flash_base + 0x18"
definition STM32Lx_FLASH_OPTR :: "target_addr \<Rightarrow> target_addr" where
  "STM32Lx_FLASH_OPTR flash_base = flash_base + 0x1c"

definition STM32Lx_FLASH_PEKEY1 :: word32 where "STM32Lx_FLASH_PEKEY1 = 0x89abcdef"
definition STM32Lx_FLASH_PEKEY2 :: word32 where "STM32Lx_FLASH_PEKEY2 = 0x02030405"
definition STM32Lx_FLASH_PRGKEY1 :: word32 where "STM32Lx_FLASH_PRGKEY1 = 0x8c9daebf"
definition STM32Lx_FLASH_PRGKEY2 :: word32 where "STM32Lx_FLASH_PRGKEY2 = 0x13141516"
definition STM32Lx_FLASH_OPTKEY1 :: word32 where "STM32Lx_FLASH_OPTKEY1 = 0xfbead9c8"
definition STM32Lx_FLASH_OPTKEY2 :: word32 where "STM32Lx_FLASH_OPTKEY2 = 0x24252627"

definition STM32Lx_FLASH_PECR_OBL_LAUNCH :: word32 where
  "STM32Lx_FLASH_PECR_OBL_LAUNCH = push_bit 18 1"
definition STM32Lx_FLASH_PECR_FPRG :: word32 where "STM32Lx_FLASH_PECR_FPRG = push_bit 10 1"
definition STM32Lx_FLASH_PECR_ERASE :: word32 where "STM32Lx_FLASH_PECR_ERASE = push_bit 9 1"
definition STM32Lx_FLASH_PECR_FIX :: word32 where "STM32Lx_FLASH_PECR_FIX = push_bit 8 1"
definition STM32Lx_FLASH_PECR_DATA :: word32 where "STM32Lx_FLASH_PECR_DATA = push_bit 4 1"
definition STM32Lx_FLASH_PECR_PROG :: word32 where "STM32Lx_FLASH_PECR_PROG = push_bit 3 1"
definition STM32Lx_FLASH_PECR_OPTLOCK :: word32 where "STM32Lx_FLASH_PECR_OPTLOCK = push_bit 2 1"
definition STM32Lx_FLASH_PECR_PRGLOCK :: word32 where "STM32Lx_FLASH_PECR_PRGLOCK = push_bit 1 1"
definition STM32Lx_FLASH_PECR_PELOCK :: word32 where "STM32Lx_FLASH_PECR_PELOCK = push_bit 0 1"

definition STM32Lx_FLASH_SR_NOTZEROERR :: word32 where "STM32Lx_FLASH_SR_NOTZEROERR = push_bit 16 1"
definition STM32Lx_FLASH_SR_SIZERR :: word32 where "STM32Lx_FLASH_SR_SIZERR = push_bit 10 1"
definition STM32Lx_FLASH_SR_PGAERR :: word32 where "STM32Lx_FLASH_SR_PGAERR = push_bit 9 1"
definition STM32Lx_FLASH_SR_WRPERR :: word32 where "STM32Lx_FLASH_SR_WRPERR = push_bit 8 1"
definition STM32Lx_FLASH_SR_BSY :: word32 where "STM32Lx_FLASH_SR_BSY = push_bit 0 1"
definition STM32Lx_FLASH_SR_ERR_MASK :: word32 where
  "STM32Lx_FLASH_SR_ERR_MASK =
     STM32Lx_FLASH_SR_WRPERR OR STM32Lx_FLASH_SR_PGAERR OR STM32Lx_FLASH_SR_SIZERR OR
     STM32Lx_FLASH_SR_NOTZEROERR"

definition STM32Lx_FLASH_OPTR_RDPROT_SHIFT :: nat where "STM32Lx_FLASH_OPTR_RDPROT_SHIFT = 0"
definition STM32Lx_FLASH_OPTR_RDPROT_MASK :: word32 where "STM32Lx_FLASH_OPTR_RDPROT_MASK = 0xff"
definition STM32Lx_FLASH_OPTR_RDPROT_0 :: word32 where "STM32Lx_FLASH_OPTR_RDPROT_0 = 0xaa"
definition STM32Lx_FLASH_OPTR_RDPROT_2 :: word32 where "STM32Lx_FLASH_OPTR_RDPROT_2 = 0xcc"

section \<open>The STM32L0/L1 driver: identification and probe\<close>

definition stm32lx_is_stm32l1 :: "target \<Rightarrow> bool" where
  "stm32lx_is_stm32l1 t =
     (t_part_id t \<noteq> 0x457 \<and> t_part_id t \<noteq> 0x425 \<and> t_part_id t \<noteq> 0x417 \<and>
      t_part_id t \<noteq> 0x447)"

definition stm32lx_nvm_eeprom_size :: "target \<Rightarrow> word32" where
  "stm32lx_nvm_eeprom_size t =
     (if t_part_id t = 0x457 then 512
      else if t_part_id t = 0x425 then 1024
      else if t_part_id t = 0x417 then 2048
      else if t_part_id t = 0x447 then 6144
      else 16384)"

definition stm32lx_flash_base :: "target \<Rightarrow> target_addr" where
  "stm32lx_flash_base t = (if stm32lx_is_stm32l1 t then STM32L1_FLASH_BASE else STM32L0_FLASH_BASE)"

definition stm32lx_nvm_option_size :: "target \<Rightarrow> word32" where
  "stm32lx_nvm_option_size t =
     (if stm32lx_is_stm32l1 t then STM32L1_FLASH_OPT_SIZE else STM32L0_FLASH_OPT_SIZE)"

text \<open>Modelled from the spec: \<^verbatim>\<open>target_add_flash\<close> is defined outside the two source
  files; the spec's registry contract says that adding a region appends it to the
  target's list.\<close>

definition target_add_flash :: "target \<Rightarrow> target_flash \<Rightarrow> target" where
  "target_add_flash t f = t\<lparr>t_flash := t_flash t @ [f]\<rparr>"

text \<open>\<^verbatim>\<open>stm32l_add_flash\<close> and \<^verbatim>\<open>stm32l_add_eeprom\<close>. \<open>calloc_ok\<close> is the outcome of the
  allocation; on failure the source logs a debug message and returns without adding
  the region.\<close>

definition stm32l_add_flash :: "bool \<Rightarrow> target \<Rightarrow> target_addr \<Rightarrow> word32 \<Rightarrow> word32 \<Rightarrow> target" where
  "stm32l_add_flash calloc_ok t addr len erasesize =
     (if \<not> calloc_ok then t
      else target_add_flash t
             \<lparr>f_start = addr, f_length = len, f_blocksize = erasesize,
              f_writesize = drop_bit 1 erasesize,
              f_erase = Some Fn_stm32lx_flash_erase, f_write = Some Fn_stm32lx_flash_write\<rparr>)"

definition stm32l_add_eeprom :: "bool \<Rightarrow> target \<Rightarrow> target_addr \<Rightarrow> word32 \<Rightarrow> target" where
  "stm32l_add_eeprom calloc_ok t addr len =
     (if \<not> calloc_ok then t
      else target_add_flash t
             \<lparr>f_start = addr, f_length = len, f_blocksize = 4, f_writesize = 0,
              f_erase = Some Fn_stm32lx_eeprom_erase, f_write = Some Fn_stm32lx_eeprom_write\<rparr>)"

text \<open>\<^verbatim>\<open>stm32l1_probe\<close>. \<open>partno\<close> is \<^verbatim>\<open>cortex_ap(target)->partno\<close>. The RAM map and the
  command list it registers play no part in flash programming and are left out. The
  variant string is written with \<^verbatim>\<open>snprintf\<close> into a 21-byte buffer, so it keeps at
  most 20 characters.\<close>

definition stm32l1_probe ::
  "'d env \<Rightarrow> 16 word \<Rightarrow> bool \<Rightarrow> bool \<Rightarrow> target \<Rightarrow> 'd world \<Rightarrow> bool \<times> target \<times> 'd world" where
  "stm32l1_probe env partno flash_calloc_ok priv_calloc_ok t w =
     (if partno = 0x416 \<or> partno = 0x429 \<or> partno = 0x427 \<or> partno = 0x436 \<or> partno = 0x437
      then
        let t1 = t\<lparr>t_driver := ''STM32L1''\<rparr>;
            t2 = stm32l_add_flash flash_calloc_ok t1 STM32Lx_FLASH_BANK_BASE 0x80000 0x100;
            t3 = t2\<lparr>t_part_id := partno\<rparr>
        in if \<not> priv_calloc_ok then (False, t3, w)
           else
             let t4 = t3\<lparr>t_target_storage := Some []\<rparr>;
                 flash_base = stm32lx_flash_base t4
             in (case target_mem32_read32 env (STM32Lx_FLASH_OPTR flash_base) w of
                   (optr, w1) \<Rightarrow>
                     let protected =
                           (optr AND STM32Lx_FLASH_OPTR_RDPROT_MASK \<noteq> STM32Lx_FLASH_OPTR_RDPROT_0);
                         variant =
                           take 20 (t_driver t4 @ (if protected then '' (protected)'' else []));
                         t5 = t4\<lparr>t_target_storage := Some variant, t_driver := variant\<rparr>
                     in if protected
                        then (True,
                              t5\<lparr>t_attach := Some Fn_stm32lx_protected_attach,
                                 t_mass_erase := Some Fn_stm32lx_protected_mass_erase\<rparr>, w1)
                        else (True, t5\<lparr>t_mass_erase := Some Fn_stm32lx_mass_erase\<rparr>, w1))
      else (False, t, w))"

section \<open>The STM32L0/L1 driver: lock, unlock, busy wait\<close>

definition stm32lx_nvm_lock :: "'d env \<Rightarrow> target_addr \<Rightarrow> 'd world \<Rightarrow> 'd world" where
  "stm32lx_nvm_lock env flash_base w =
     snd (target_mem32_write32 env (STM32Lx_FLASH_PECR flash_base) STM32Lx_FLASH_PECR_PELOCK w)"

definition stm32lx_nvm_prog_data_unlock ::
  "'d env \<Rightarrow> target_addr \<Rightarrow> 'd world \<Rightarrow> bool \<times> 'd world" where
  "stm32lx_nvm_prog_data_unlock env flash_base w =
     (let w1 = snd (target_mem32_write32 env (STM32Lx_FLASH_PECR flash_base)
                      STM32Lx_FLASH_PECR_PELOCK w);
          w2 = snd (target_mem32_write32 env (STM32Lx_FLASH_PEKEYR flash_base)
                      STM32Lx_FLASH_PEKEY1 w1);
          w3 = snd (target_mem32_write32 env (STM32Lx_FLASH_PEKEYR flash_base)
                      STM32Lx_FLASH_PEKEY2 w2);
          w4 = snd (target_mem32_write32 env (STM32Lx_FLASH_PRGKEYR flash_base)
                      STM32Lx_FLASH_PRGKEY1 w3);
          w5 = snd (target_mem32_write32 env (STM32Lx_FLASH_PRGKEYR flash_base)
                      STM32Lx_FLASH_PRGKEY2 w4)
      in (case target_mem32_read32 env (STM32Lx_FLASH_PECR flash_base) w5 of
            (pecr, w6) \<Rightarrow> (\<not> (pecr AND STM32Lx_FLASH_PECR_PRGLOCK \<noteq> 0), w6)))"

definition stm32lx_nvm_opt_unlock ::
  "'d env \<Rightarrow> target_addr \<Rightarrow> 'd world \<Rightarrow> bool \<times> 'd world" where
  "stm32lx_nvm_opt_unlock env flash_base w =
     (let w1 = snd (target_mem32_write32 env (STM32Lx_FLASH_PECR flash_base)
                      STM32Lx_FLASH_PECR_PELOCK w);
          w2 = snd (target_mem32_write32 env (STM32Lx_FLASH_PEKEYR flash_base)
                      STM32Lx_FLASH_PEKEY1 w1);
          w3 = snd (target_mem32_write32 env (STM32Lx_FLASH_PEKEYR flash_base)
                      STM32Lx_FLASH_PEKEY2 w2);
          w4 = snd (target_mem32_write32 env (STM32Lx_FLASH_OPTKEYR flash_base)
                      STM32Lx_FLASH_OPTKEY1 w3);
          w5 = snd (target_mem32_write32 env (STM32Lx_FLASH_OPTKEYR flash_base)
                      STM32Lx_FLASH_OPTKEY2 w4)
      in (case target_mem32_read32 env (STM32Lx_FLASH_PECR flash_base) w5 of
            (pecr, w6) \<Rightarrow> (\<not> (pecr AND STM32Lx_FLASH_PECR_OPTLOCK \<noteq> 0), w6)))"

text \<open>\<^verbatim>\<open>stm32lx_nvm_busy_wait\<close>. The \<^verbatim>\<open>while\<close> loop ends only when the device clears
  BSY or the transport reports an error (the timeout only prints progress), so it
  is bounded by fuel: each poll of the status register uses one unit, and running
  out is the error \<open>Out_of_fuel\<close>. \<open>has_timeout\<close> says whether the \<^verbatim>\<open>timeout\<close>
  pointer is non-null.\<close>

fun stm32lx_nvm_busy_wait ::
  "nat \<Rightarrow> 'd env \<Rightarrow> target_addr \<Rightarrow> bool \<Rightarrow> 'd world \<Rightarrow> error + (bool \<times> 'd world)" where
  "stm32lx_nvm_busy_wait 0 env flash_base has_timeout w = Inl Out_of_fuel"
| "stm32lx_nvm_busy_wait (Suc fuel) env flash_base has_timeout w =
     (case target_mem32_read32 env (STM32Lx_FLASH_SR flash_base) w of
        (sr, w1) \<Rightarrow>
          if sr AND STM32Lx_FLASH_SR_BSY \<noteq> 0 then
            (case target_check_error env w1 of
               (err, w2) \<Rightarrow>
                 if err then Inr (False, w2)
                 else stm32lx_nvm_busy_wait fuel env flash_base has_timeout
                        (if has_timeout then target_print_progress w2 else w2))
          else
            (case target_mem32_read32 env (STM32Lx_FLASH_SR flash_base) w1 of
               (status, w2) \<Rightarrow>
                 (case target_check_error env w2 of
                    (err, w3) \<Rightarrow>
                      Inr (\<not> err \<and> \<not> (status AND STM32Lx_FLASH_SR_ERR_MASK \<noteq> 0), w3))))"

section \<open>The STM32L0/L1 driver: erase and write\<close>

text \<open>The trigger loop of \<^verbatim>\<open>stm32lx_flash_erase\<close>:
  \<^verbatim>\<open>for (size_t offset = 0; offset < length; offset += flash->blocksize)\<close>. The offset is
  a 32-bit word and wraps as \<^verbatim>\<open>size_t\<close> does, so the loop need not end (a block size
  of 0, or a wrap below \<open>len\<close>); one unit of fuel per iteration.\<close>

fun stm32lx_flash_erase_loop ::
  "nat \<Rightarrow> 'd env \<Rightarrow> target_addr \<Rightarrow> word32 \<Rightarrow> word32 \<Rightarrow> bool \<Rightarrow> word32 \<Rightarrow> 'd world
     \<Rightarrow> error + 'd world" where
  "stm32lx_flash_erase_loop 0 env addr len blocksize full_erase offset w = Inl Out_of_fuel"
| "stm32lx_flash_erase_loop (Suc fuel) env addr len blocksize full_erase offset w =
     (if offset < len then
        let w1 = snd (target_mem32_write32 env (addr + offset) 0 w);
            w2 = (if full_erase then target_print_progress w1 else w1)
        in stm32lx_flash_erase_loop fuel env addr len blocksize full_erase (offset + blocksize) w2
      else Inr w)"

definition stm32lx_flash_erase ::
  "nat \<Rightarrow> 'd env \<Rightarrow> target \<Rightarrow> target_flash \<Rightarrow> target_addr \<Rightarrow> word32 \<Rightarrow> 'd world
     \<Rightarrow> error + (bool \<times> 'd world)" where
  "stm32lx_flash_erase fuel env t flash addr len w =
     (let flash_base = stm32lx_flash_base t;
          full_erase = (addr = f_start flash \<and> len = f_length flash)
      in (case stm32lx_nvm_prog_data_unlock env flash_base w of
            (unlocked, w1) \<Rightarrow>
              if \<not> unlocked then Inr (False, w1)
              else
                let w2 = snd (target_mem32_write32 env (STM32Lx_FLASH_PECR flash_base)
                                (STM32Lx_FLASH_PECR_ERASE OR STM32Lx_FLASH_PECR_PROG) w1)
                in (case target_mem32_read32 env (STM32Lx_FLASH_PECR flash_base) w2 of
                      (v, w3) \<Rightarrow>
                        let pecr = v AND (STM32Lx_FLASH_PECR_PROG OR STM32Lx_FLASH_PECR_ERASE)
                        in if pecr \<noteq> (STM32Lx_FLASH_PECR_PROG OR STM32Lx_FLASH_PECR_ERASE)
                           then Inr (False, w3)
                           else
                             let w4 = snd (target_mem32_write32 env (STM32Lx_FLASH_SR flash_base)
                                             STM32Lx_FLASH_SR_ERR_MASK w3);
                                 w5 = platform_timeout_set 500 w4
                             in (case stm32lx_flash_erase_loop fuel env addr len
                                        (f_blocksize flash) full_erase 0 w5 of
                                   Inl e \<Rightarrow> Inl e
                                 | Inr w6 \<Rightarrow>
                                     stm32lx_nvm_busy_wait fuel env flash_base full_erase
                                       (stm32lx_nvm_lock env flash_base w6)))))"

text \<open>\<^verbatim>\<open>stm32lx_flash_write\<close>. \<open>src\<close> is the byte buffer; \<^verbatim>\<open>target_mem32_write\<close> sends
  its first \<open>len\<close> bytes, and a buffer shorter than \<open>len\<close> is a read out of bounds.\<close>

definition stm32lx_flash_write ::
  "nat \<Rightarrow> 'd env \<Rightarrow> target \<Rightarrow> target_flash \<Rightarrow> target_addr \<Rightarrow> 8 word list \<Rightarrow> word32 \<Rightarrow> 'd world
     \<Rightarrow> error + (bool \<times> 'd world)" where
  "stm32lx_flash_write fuel env t flash dest src len w =
     (let flash_base = stm32lx_flash_base t
      in (case stm32lx_nvm_prog_data_unlock env flash_base w of
            (unlocked, w1) \<Rightarrow>
              if \<not> unlocked then Inr (False, w1)
              else
                (case stm32lx_nvm_busy_wait fuel env flash_base False w1 of
                   Inl e \<Rightarrow> Inl e
                 | Inr (idle, w2) \<Rightarrow>
                     if \<not> idle then Inr (False, w2)
                     else
                       let w3 = snd (target_mem32_write32 env (STM32Lx_FLASH_PECR flash_base)
                                       (STM32Lx_FLASH_PECR_PROG OR STM32Lx_FLASH_PECR_FPRG) w2)
                       in if length src < unat len then Inl Out_of_bounds
                          else
                            let w4 = snd (target_mem32_write env dest (take (unat len) src) w3)
                            in stm32lx_nvm_busy_wait fuel env flash_base False
                                 (stm32lx_nvm_lock env flash_base w4))))"

text \<open>The trigger loop of \<^verbatim>\<open>stm32lx_eeprom_erase\<close>, over the masked address.\<close>

fun stm32lx_eeprom_erase_loop ::
  "nat \<Rightarrow> 'd env \<Rightarrow> target_addr \<Rightarrow> word32 \<Rightarrow> word32 \<Rightarrow> word32 \<Rightarrow> 'd world \<Rightarrow> error + 'd world" where
  "stm32lx_eeprom_erase_loop 0 env aligned_addr len blocksize offset w = Inl Out_of_fuel"
| "stm32lx_eeprom_erase_loop (Suc fuel) env aligned_addr len blocksize offset w =
     (if offset < len then
        stm32lx_eeprom_erase_loop fuel env aligned_addr len blocksize (offset + blocksize)
          (snd (target_mem32_write32 env (aligned_addr + offset) 0 w))
      else Inr w)"

definition stm32lx_eeprom_erase ::
  "nat \<Rightarrow> 'd env \<Rightarrow> target \<Rightarrow> target_flash \<Rightarrow> target_addr \<Rightarrow> word32 \<Rightarrow> 'd world
     \<Rightarrow> error + (bool \<times> 'd world)" where
  "stm32lx_eeprom_erase fuel env t flash addr len w =
     (let flash_base = stm32lx_flash_base t
      in (case stm32lx_nvm_prog_data_unlock env flash_base w of
            (unlocked, w1) \<Rightarrow>
              if \<not> unlocked then Inr (False, w1)
              else
                let w2 = snd (target_mem32_write32 env (STM32Lx_FLASH_PECR flash_base)
                                (STM32Lx_FLASH_PECR_ERASE OR STM32Lx_FLASH_PECR_DATA) w1)
                in (case target_mem32_read32 env (STM32Lx_FLASH_PECR flash_base) w2 of
                      (v, w3) \<Rightarrow>
                        let pecr = v AND (STM32Lx_FLASH_PECR_ERASE OR STM32Lx_FLASH_PECR_DATA)
                        in if pecr \<noteq> (STM32Lx_FLASH_PECR_ERASE OR STM32Lx_FLASH_PECR_DATA)
                           then Inr (False, w3)
                           else
                             let aligned_addr = addr AND NOT 3
                             in (case stm32lx_eeprom_erase_loop fuel env aligned_addr len
                                        (f_blocksize flash) 0 w3 of
                                   Inl e \<Rightarrow> Inl e
                                 | Inr w4 \<Rightarrow>
                                     stm32lx_nvm_busy_wait fuel env flash_base False
                                       (stm32lx_nvm_lock env flash_base w4)))))"

text \<open>The copy loop of \<^verbatim>\<open>stm32lx_eeprom_write\<close>. \<open>data\<close> is the source buffer read as
  \<^verbatim>\<open>const uint32_t *\<close>; the loop reads \<^verbatim>\<open>data[offset]\<close> where \<open>offset\<close> is the byte
  offset, and a read past the buffer is \<open>Out_of_bounds\<close>. The boolean of the result
  is \<open>False\<close> when the loop left the function with \<^verbatim>\<open>return false\<close>.\<close>

fun stm32lx_eeprom_write_loop ::
  "nat \<Rightarrow> 'd env \<Rightarrow> target_addr \<Rightarrow> word32 list \<Rightarrow> word32 \<Rightarrow> word32 \<Rightarrow> 'd world
     \<Rightarrow> error + (bool \<times> 'd world)" where
  "stm32lx_eeprom_write_loop 0 env dest data len offset w = Inl Out_of_fuel"
| "stm32lx_eeprom_write_loop (Suc fuel) env dest data len offset w =
     (if offset < len then
        (if length data \<le> unat offset then Inl Out_of_bounds
         else
           (case target_mem32_write32 env (dest + offset) (data ! unat offset) w of
              (err, w1) \<Rightarrow>
                if err then Inr (False, w1)
                else stm32lx_eeprom_write_loop fuel env dest data len (offset + 4) w1))
      else Inr (True, w))"

definition stm32lx_eeprom_write ::
  "nat \<Rightarrow> 'd env \<Rightarrow> target \<Rightarrow> target_flash \<Rightarrow> target_addr \<Rightarrow> word32 list \<Rightarrow> word32 \<Rightarrow> 'd world
     \<Rightarrow> error + (bool \<times> 'd world)" where
  "stm32lx_eeprom_write fuel env t flash dest data len w =
     (let flash_base = stm32lx_flash_base t;
          is_stm32l1 = stm32lx_is_stm32l1 t
      in (case stm32lx_nvm_prog_data_unlock env flash_base w of
            (unlocked, w1) \<Rightarrow>
              if \<not> unlocked then Inr (False, w1)
              else
                let w2 = snd (target_mem32_write32 env (STM32Lx_FLASH_PECR flash_base)
                                (if is_stm32l1 then 0 else STM32Lx_FLASH_PECR_DATA) w1)
                in (case stm32lx_eeprom_write_loop fuel env dest data len 0 w2 of
                      Inl e \<Rightarrow> Inl e
                    | Inr (copied, w3) \<Rightarrow>
                        if \<not> copied then Inr (False, w3)
                        else stm32lx_nvm_busy_wait fuel env flash_base False
                               (stm32lx_nvm_lock env flash_base w3))))"

section \<open>The STM32L0/L1 driver: protected devices and mass erase\<close>

definition stm32lx_protected_attach :: "target \<Rightarrow> 'd world \<Rightarrow> bool \<times> target \<times> 'd world" where
  "stm32lx_protected_attach t w =
     (True, t\<lparr>t_attach := Some Fn_cortexm_attach\<rparr>,
      tc_printf
        ''Attached in protected mode, please issue 'monitor erase_mass' to regain chip access\<newline>''
        [] w)"

text \<open>The wait loop of \<^verbatim>\<open>stm32lx_protected_mass_erase\<close>:
  \<^verbatim>\<open>while (read32(SR) & BSY) target_print_progress(&timeout);\<close>\<close>

fun stm32lx_protected_wait ::
  "nat \<Rightarrow> 'd env \<Rightarrow> target_addr \<Rightarrow> 'd world \<Rightarrow> error + 'd world" where
  "stm32lx_protected_wait 0 env flash_base w = Inl Out_of_fuel"
| "stm32lx_protected_wait (Suc fuel) env flash_base w =
     (case target_mem32_read32 env (STM32Lx_FLASH_SR flash_base) w of
        (sr, w1) \<Rightarrow>
          if sr AND STM32Lx_FLASH_SR_BSY \<noteq> 0
          then stm32lx_protected_wait fuel env flash_base (target_print_progress w1)
          else Inr w1)"

definition stm32lx_protected_mass_erase ::
  "nat \<Rightarrow> 'd env \<Rightarrow> target \<Rightarrow> 'd world \<Rightarrow> error + (bool \<times> 'd world)" where
  "stm32lx_protected_mass_erase fuel env t w =
     (let flash_base = stm32lx_flash_base t
      in (case stm32lx_nvm_opt_unlock env flash_base w of
            (unlocked, w1) \<Rightarrow>
              if \<not> unlocked then Inr (False, w1)
              else
                let w2 = snd (target_mem32_write32 env STM32Lx_FLASH_OPT_BASE 0xffff0000 w1);
                    w3 = snd (target_mem32_write32 env (STM32Lx_FLASH_PECR flash_base)
                                STM32Lx_FLASH_PECR_OBL_LAUNCH w2);
                    w4 = snd (target_mem32_write32 env STM32Lx_FLASH_OPT_BASE 0xff5500aa w3);
                    w5 = snd (target_mem32_write32 env (STM32Lx_FLASH_PECR flash_base)
                                STM32Lx_FLASH_PECR_OBL_LAUNCH w4);
                    w6 = platform_timeout_set 500 w5
                in (case stm32lx_protected_wait fuel env flash_base w6 of
                      Inl e \<Rightarrow> Inl e
                    | Inr w7 \<Rightarrow> Inr (True, stm32lx_nvm_lock env flash_base w7))))"

text \<open>\<^verbatim>\<open>stm32lx_mass_erase\<close>: the loop over the target's regions calls
  \<^verbatim>\<open>stm32lx_flash_erase\<close> on each and returns \<^verbatim>\<open>false\<close> at the first failure.\<close>

fun stm32lx_mass_erase_loop ::
  "nat \<Rightarrow> 'd env \<Rightarrow> target \<Rightarrow> target_flash list \<Rightarrow> 'd world \<Rightarrow> error + (bool \<times> 'd world)" where
  "stm32lx_mass_erase_loop fuel env t [] w = Inr (True, w)"
| "stm32lx_mass_erase_loop fuel env t (flash # rest) w =
     (case stm32lx_flash_erase fuel env t flash (f_start flash) (f_length flash) w of
        Inl e \<Rightarrow> Inl e
      | Inr (result, w1) \<Rightarrow>
          if \<not> result then Inr (False, w1) else stm32lx_mass_erase_loop fuel env t rest w1)"

definition stm32lx_mass_erase ::
  "nat \<Rightarrow> 'd env \<Rightarrow> target \<Rightarrow> 'd world \<Rightarrow> error + (bool \<times> 'd world)" where
  "stm32lx_mass_erase fuel env t w = stm32lx_mass_erase_loop fuel env t (t_flash t) w"

text \<open>The calls through the function pointers of a region and of a target, as the
  generic layer makes them. The drivers of this model take the payload of the
  EEPROM write as words, so the byte buffer is passed in both views.\<close>

definition flash_erase_call ::
  "nat \<Rightarrow> 'd env \<Rightarrow> target \<Rightarrow> target_flash \<Rightarrow> target_addr \<Rightarrow> word32 \<Rightarrow> 'd world
     \<Rightarrow> error + (bool \<times> 'd world)" where
  "flash_erase_call fuel env t flash addr len w =
     (case f_erase flash of
        None \<Rightarrow> Inl Null_pointer
      | Some Fn_stm32lx_flash_erase \<Rightarrow> stm32lx_flash_erase fuel env t flash addr len w
      | Some Fn_stm32lx_eeprom_erase \<Rightarrow> stm32lx_eeprom_erase fuel env t flash addr len w
      | Some Fn_lpc546xx_flash_erase \<Rightarrow> Inr (lpc546xx_flash_erase env flash addr len w))"

definition flash_write_call ::
  "nat \<Rightarrow> 'd env \<Rightarrow> target \<Rightarrow> target_flash \<Rightarrow> target_addr \<Rightarrow> 8 word list \<Rightarrow> word32 list
     \<Rightarrow> word32 \<Rightarrow> 'd world \<Rightarrow> error + (bool \<times> 'd world)" where
  "flash_write_call fuel env t flash dest src data len w =
     (case f_write flash of
        None \<Rightarrow> Inl Null_pointer
      | Some Fn_stm32lx_flash_write \<Rightarrow> stm32lx_flash_write fuel env t flash dest src len w
      | Some Fn_stm32lx_eeprom_write \<Rightarrow> stm32lx_eeprom_write fuel env t flash dest data len w
      | Some Fn_lpc_flash_write_magic_vect \<Rightarrow>
          Inr (lpc_flash_write_magic_vect env flash dest src len w))"

definition mass_erase_call ::
  "nat \<Rightarrow> 'd env \<Rightarrow> target \<Rightarrow> 'd world \<Rightarrow> error + (bool \<times> 'd world)" where
  "mass_erase_call fuel env t w =
     (case t_mass_erase t of
        None \<Rightarrow> Inl Null_pointer
      | Some Fn_stm32lx_mass_erase \<Rightarrow> stm32lx_mass_erase fuel env t w
      | Some Fn_stm32lx_protected_mass_erase \<Rightarrow> stm32lx_protected_mass_erase fuel env t w
      | Some Fn_lpc546xx_mass_erase \<Rightarrow> lpc546xx_mass_erase env t w)"

section \<open>The STM32L0/L1 driver: option bytes and the EEPROM command\<close>


definition stm32lx_eeprom_write_one ::
  "nat \<Rightarrow> 'd env \<Rightarrow> target \<Rightarrow> target_addr \<Rightarrow> word32 \<Rightarrow> word32 \<Rightarrow> 'd world
     \<Rightarrow> error + (bool \<times> 'd world)" where
  "stm32lx_eeprom_write_one fuel env t address block_size val w =
     (let flash_base = stm32lx_flash_base t;
          is_stm32l1 = stm32lx_is_stm32l1 t;
          w1 = snd (target_mem32_write32 env (STM32Lx_FLASH_SR flash_base)
                      STM32Lx_FLASH_SR_ERR_MASK w);
          w2 = snd (target_mem32_write32 env (STM32Lx_FLASH_PECR flash_base)
                      ((if is_stm32l1 then 0 else STM32Lx_FLASH_PECR_DATA) OR
                       STM32Lx_FLASH_PECR_FIX) w1)
      in if block_size = 4
         then stm32lx_nvm_busy_wait fuel env flash_base False
                (snd (target_mem32_write32 env address val w2))
         else if block_size = 2
         then stm32lx_nvm_busy_wait fuel env flash_base False
                (snd (target_mem32_write16 env address (ucast val) w2))
         else if block_size = 1
         then stm32lx_nvm_busy_wait fuel env flash_base False
                (snd (target_mem32_write8 env address (ucast val) w2))
         else Inr (False, w2))"


text \<open>The C library's \<^verbatim>\<open>tolower\<close> (on ASCII) and \<^verbatim>\<open>strncasecmp\<close>: the first \<open>n\<close>
  characters are compared without regard to case, and the end of a string counts
  as the character 0. \<^verbatim>\<open>strlen\<close> is \<open>length\<close>.\<close>

definition c_tolower :: "char \<Rightarrow> nat" where
  "c_tolower c = (let n = (of_char c :: nat) in if 65 \<le> n \<and> n \<le> 90 then n + 32 else n)"

fun strncasecmp :: "string \<Rightarrow> string \<Rightarrow> nat \<Rightarrow> int" where
  "strncasecmp s1 s2 0 = 0"
| "strncasecmp [] [] (Suc n) = 0"
| "strncasecmp [] (c2 # s2) (Suc n) = - int (c_tolower c2)"
| "strncasecmp (c1 # s1) [] (Suc n) = int (c_tolower c1)"
| "strncasecmp (c1 # s1) (c2 # s2) (Suc n) =
     (if c_tolower c1 = c_tolower c2 then strncasecmp s1 s2 n
      else int (c_tolower c1) - int (c_tolower c2))"











definition stm32lx_block_size_str :: "word32 \<Rightarrow> string" where
  "stm32lx_block_size_str block_size =
     (if block_size = 4 then ''word''
      else if block_size = 2 then ''halfword''
      else if block_size = 1 then ''byte''
      else [])"

definition cmd_eeprom_done :: "'d env \<Rightarrow> target \<Rightarrow> 'd world \<Rightarrow> error + (bool \<times> 'd world)" where
  "cmd_eeprom_done env t w = Inr (True, stm32lx_nvm_lock env (stm32lx_flash_base t) w)"

definition cmd_eeprom_usage :: "'d env \<Rightarrow> target \<Rightarrow> 'd world \<Rightarrow> error + (bool \<times> 'd world)" where
  "cmd_eeprom_usage env t w =
     (let w1 = tc_printf ''usage: monitor eeprom [ARGS]\<newline>'' [] w;
          w2 = tc_printf ''  byte     <addr> <value8>  - Write a byte\<newline>'' [] w1;
          w3 = tc_printf ''  halfword <addr> <value16> - Write a half-word\<newline>'' [] w2;
          w4 = tc_printf ''  word     <addr> <value32> - Write a word\<newline>'' [] w3;
          w5 = tc_printf ''The value of <addr> must in the interval [0x%08x, 0x%x)\<newline>''
                 [Arg_u32 STM32Lx_FLASH_EEPROM_BASE,
                  Arg_u32 (STM32Lx_FLASH_EEPROM_BASE + stm32lx_nvm_eeprom_size t)] w4
      in cmd_eeprom_done env t w5)"

text \<open>The tail of the \<^verbatim>\<open>argc == 4\<close> branch of \<^verbatim>\<open>stm32lx_cmd_eeprom\<close>, once the block
  size is chosen.\<close>

definition cmd_eeprom_write ::
  "nat \<Rightarrow> 'd env \<Rightarrow> target \<Rightarrow> target_addr \<Rightarrow> word32 \<Rightarrow> word32 \<Rightarrow> 'd world
     \<Rightarrow> error + (bool \<times> 'd world)" where
  "cmd_eeprom_write fuel env t addr block_size val w =
     (let w1 = tc_printf ''writing %s 0x%08x with 0x%x\<newline>''
                 [Arg_str (stm32lx_block_size_str block_size), Arg_u32 addr, Arg_u32 val] w
      in (case stm32lx_eeprom_write_one fuel env t addr block_size val w1 of
            Inl e \<Rightarrow> Inl e
          | Inr (written, w2) \<Rightarrow>
              cmd_eeprom_done env t
                (if \<not> written then tc_printf ''eeprom write failed\<newline>'' [] w2 else w2)))"

definition stm32lx_cmd_eeprom ::
  "nat \<Rightarrow> 'd env \<Rightarrow> target \<Rightarrow> int \<Rightarrow> string list \<Rightarrow> 'd world \<Rightarrow> error + (bool \<times> 'd world)" where
  "stm32lx_cmd_eeprom fuel env t argc argv w =
     (let flash_base = stm32lx_flash_base t
      in (case stm32lx_nvm_prog_data_unlock env flash_base w of
            (unlocked, w1) \<Rightarrow>
              if \<not> unlocked then Inr (True, tc_printf ''unable to unlock EEPROM\<newline>'' [] w1)
              else if argc = 4 then
                (case argv_at argv 2 of
                   Inl e \<Rightarrow> Inl e
                 | Inr arg2 \<Rightarrow>
                (case argv_at argv 3 of
                   Inl e \<Rightarrow> Inl e
                 | Inr arg3 \<Rightarrow>
                     let addr = (word_of_int (e_strtoul env arg2) :: word32);
                         val = (word_of_int (e_strtoul env arg3) :: word32)
                     in if addr < STM32Lx_FLASH_EEPROM_BASE \<or>
                           addr \<ge> STM32Lx_FLASH_EEPROM_BASE + stm32lx_nvm_eeprom_size t
                        then cmd_eeprom_usage env t w1
                        else
                          (case argv_at argv 1 of
                             Inl e \<Rightarrow> Inl e
                           | Inr arg1 \<Rightarrow>
                               let command_len = length arg1
                               in if strncasecmp arg1 ''byte'' command_len = 0
                                  then cmd_eeprom_write fuel env t addr 1 (val AND 0xff) w1
                                  else if strncasecmp arg1 ''halfword'' command_len = 0
                                  then
                                    (if addr AND 1 \<noteq> 0
                                     then cmd_eeprom_usage env t
                                            (tc_printf ''Refusing to do unaligned write\<newline>'' [] w1)
                                     else cmd_eeprom_write fuel env t addr 2 (val AND 0xffff) w1)
                                  else if strncasecmp arg1 ''word'' command_len = 0
                                  then
                                    (if addr AND 3 \<noteq> 0
                                     then cmd_eeprom_usage env t
                                            (tc_printf ''Refusing to do unaligned write\<newline>'' [] w1)
                                     else cmd_eeprom_write fuel env t addr 4 val w1)
                                  else cmd_eeprom_usage env t w1)))
              else cmd_eeprom_usage env t w1))"

text \<open>An STM32L1 target as \<^verbatim>\<open>stm32l1_probe\<close> leaves it, before the protection test,
  and an STM32L0 (category 3) target with its EEPROM region, for the concrete
  runs.\<close>

definition l1_demo_target :: target where
  "l1_demo_target =
     \<lparr>t_driver = [], t_part_id = 0, t_attach = Some Fn_cortexm_attach,
      t_mass_erase = None, t_flash = [], t_target_storage = None\<rparr>"

definition l0_eeprom_flash :: target_flash where
  "l0_eeprom_flash =
     \<lparr>f_start = 0x08080000, f_length = 0x1800, f_blocksize = 4, f_writesize = 0,
      f_erase = Some Fn_stm32lx_eeprom_erase, f_write = Some Fn_stm32lx_eeprom_write\<rparr>"

definition l0_flash :: target_flash where
  "l0_flash =
     \<lparr>f_start = 0x08000000, f_length = 0x10000, f_blocksize = 0x80, f_writesize = 0x40,
      f_erase = Some Fn_stm32lx_flash_erase, f_write = Some Fn_stm32lx_flash_write\<rparr>"

definition l0_demo_target :: target where
  "l0_demo_target =
     \<lparr>t_driver = ''STM32L0'', t_part_id = 0x417, t_attach = Some Fn_stm32l0_attach,
      t_mass_erase = Some Fn_stm32lx_mass_erase, t_flash = [l0_flash, l0_eeprom_flash],
      t_target_storage = None\<rparr>"


definition l1_flash :: target_flash where
  "l1_flash =
     \<lparr>f_start = 0x08000000, f_length = 0x80000, f_blocksize = 0x100, f_writesize = 0x80,
      f_erase = Some Fn_stm32lx_flash_erase, f_write = Some Fn_stm32lx_flash_write\<rparr>"

text \<open>The STM32L1 target as \<^verbatim>\<open>stm32l1_probe\<close> leaves it when the option register shows
  read protection.\<close>

definition l1_protected_target :: target where
  "l1_protected_target =
     \<lparr>t_driver = ''STM32L1 (protected)'', t_part_id = 0x416,
      t_attach = Some Fn_stm32lx_protected_attach,
      t_mass_erase = Some Fn_stm32lx_protected_mass_erase,
      t_flash = [l1_flash],
      t_target_storage = Some ''STM32L1 (protected)''\<rparr>"

section \<open>Event sequences of the driver's fixed steps\<close>


definition prog_data_unlock_events :: "target_addr \<Rightarrow> event list" where
  "prog_data_unlock_events flash_base =
     [Mem_write32 (STM32Lx_FLASH_PECR flash_base) STM32Lx_FLASH_PECR_PELOCK,
      Mem_write32 (STM32Lx_FLASH_PEKEYR flash_base) STM32Lx_FLASH_PEKEY1,
      Mem_write32 (STM32Lx_FLASH_PEKEYR flash_base) STM32Lx_FLASH_PEKEY2,
      Mem_write32 (STM32Lx_FLASH_PRGKEYR flash_base) STM32Lx_FLASH_PRGKEY1,
      Mem_write32 (STM32Lx_FLASH_PRGKEYR flash_base) STM32Lx_FLASH_PRGKEY2,
      Mem_read32 (STM32Lx_FLASH_PECR flash_base)]"



text \<open>The five lines the label \<^verbatim>\<open>usage\<close> of \<^verbatim>\<open>stm32lx_cmd_eeprom\<close> prints.\<close>

definition eeprom_usage_events :: "target \<Rightarrow> event list" where
  "eeprom_usage_events t =
     [Tc_printf ''usage: monitor eeprom [ARGS]\<newline>'' [],
      Tc_printf ''  byte     <addr> <value8>  - Write a byte\<newline>'' [],
      Tc_printf ''  halfword <addr> <value16> - Write a half-word\<newline>'' [],
      Tc_printf ''  word     <addr> <value32> - Write a word\<newline>'' [],
      Tc_printf ''The value of <addr> must in the interval [0x%08x, 0x%x)\<newline>''
        [Arg_u32 STM32Lx_FLASH_EEPROM_BASE,
         Arg_u32 (STM32Lx_FLASH_EEPROM_BASE + stm32lx_nvm_eeprom_size t)]]"

section \<open>Replaying events on the transport\<close>

text \<open>
  The trace and the device state of a world are two records of the same run. They
  are tied together by replaying: \<open>apply_event\<close> makes the transport call an event
  stands for, \<open>replay\<close> makes the calls of a list of events in order, and
  \<open>perform env evs w\<close> is the world in which exactly the events \<open>evs\<close> have been
  made on the transport after \<open>w\<close>. Printing, progress reports and the timeout make
  no transport call. The two ROM calls of the LPC driver need the region they act
  on, which an event does not carry; they are not replayed and are stated through
  the transport functions where they occur.
\<close>

fun apply_event :: "'d env \<Rightarrow> event \<Rightarrow> 'd \<Rightarrow> 'd" where
  "apply_event env (Mem_write32 a v) d = snd (e_write32 env a v d)"
| "apply_event env (Mem_write16 a v) d = snd (e_write16 env a v d)"
| "apply_event env (Mem_write8 a v) d = snd (e_write8 env a v d)"
| "apply_event env (Mem_write a bs) d = snd (e_write env a bs d)"
| "apply_event env (Mem_read32 a) d = snd (e_read32 env a d)"
| "apply_event env Check_error d = snd (e_check_error env d)"
| "apply_event env Target_reset d = e_reset env d"
| "apply_event env (Target_halt_resume step) d = e_halt_resume env step d"
| "apply_event env Cortexm_attach d = snd (e_cortexm_attach env d)"
| "apply_event env Print_progress d = d"
| "apply_event env (Timeout_set ms) d = d"
| "apply_event env (Tc_printf fmt args) d = d"
| "apply_event env (Lpc_flash_erase a len) d = d"
| "apply_event env (Lpc_flash_write_magic_vect a buf len) d = d"

definition replay :: "'d env \<Rightarrow> event list \<Rightarrow> 'd \<Rightarrow> 'd" where
  "replay env evs d = fold (apply_event env) evs d"

definition perform :: "'d env \<Rightarrow> event list \<Rightarrow> 'd world \<Rightarrow> 'd world" where
  "perform env evs w = \<lparr>dev = replay env evs (dev w), trace = trace w @ evs\<rparr>"

section \<open>A device that is busy for a number of polls\<close>

text \<open>
  \<open>busy_for env flash_base p d\<close>: from the device state \<open>d\<close>, the status register
  shows BSY set at each of the next \<open>p\<close> reads, with no transport error reported
  in between, and BSY clear at the read after them. \<open>wait_events\<close> are the events
  of \<^verbatim>\<open>stm32lx_nvm_busy_wait\<close> on such a device: \<open>p\<close> polls (each followed by the
  error check and, with a timeout, a progress report), the read that shows BSY
  clear, the read of the status and the final error check. \<open>wait_verdict\<close> is the
  value the function then returns: no transport error and no error flag in the
  status read.
\<close>

fun busy_for :: "'d env \<Rightarrow> target_addr \<Rightarrow> nat \<Rightarrow> 'd \<Rightarrow> bool" where
  "busy_for env flash_base 0 d =
     (fst (e_read32 env (STM32Lx_FLASH_SR flash_base) d) AND STM32Lx_FLASH_SR_BSY = 0)"
| "busy_for env flash_base (Suc p) d =
     (fst (e_read32 env (STM32Lx_FLASH_SR flash_base) d) AND STM32Lx_FLASH_SR_BSY \<noteq> 0 \<and>
      \<not> fst (e_check_error env (snd (e_read32 env (STM32Lx_FLASH_SR flash_base) d))) \<and>
      busy_for env flash_base p
        (snd (e_check_error env (snd (e_read32 env (STM32Lx_FLASH_SR flash_base) d)))))"

definition wait_polls :: "target_addr \<Rightarrow> bool \<Rightarrow> nat \<Rightarrow> event list" where
  "wait_polls flash_base has_timeout p =
     concat (replicate p
       ([Mem_read32 (STM32Lx_FLASH_SR flash_base), Check_error] @
        (if has_timeout then [Print_progress] else [])))"

definition wait_events :: "target_addr \<Rightarrow> bool \<Rightarrow> nat \<Rightarrow> event list" where
  "wait_events flash_base has_timeout p =
     wait_polls flash_base has_timeout p @
     [Mem_read32 (STM32Lx_FLASH_SR flash_base), Mem_read32 (STM32Lx_FLASH_SR flash_base),
      Check_error]"

definition wait_verdict :: "'d env \<Rightarrow> target_addr \<Rightarrow> bool \<Rightarrow> nat \<Rightarrow> 'd \<Rightarrow> bool" where
  "wait_verdict env flash_base has_timeout p d =
     (\<not> fst (e_check_error env
              (replay env
                 (wait_polls flash_base has_timeout p @
                  [Mem_read32 (STM32Lx_FLASH_SR flash_base),
                   Mem_read32 (STM32Lx_FLASH_SR flash_base)]) d)) \<and>
      fst (e_read32 env (STM32Lx_FLASH_SR flash_base)
             (replay env
                (wait_polls flash_base has_timeout p @
                 [Mem_read32 (STM32Lx_FLASH_SR flash_base)]) d))
        AND STM32Lx_FLASH_SR_ERR_MASK = 0)"

section \<open>Event sequences of the EEPROM erase and of the option command\<close>

text \<open>The arming of \<^verbatim>\<open>stm32lx_eeprom_erase\<close> (unlock, mode write, read-back) and its
  trigger writes: one write of 0 at \<open>(addr AND NOT 3) + k * blocksize\<close> for each
  \<open>k\<close> below \<open>n\<close>, in increasing order.\<close>

definition eeprom_arm_events :: "target_addr \<Rightarrow> event list" where
  "eeprom_arm_events flash_base =
     prog_data_unlock_events flash_base @
     [Mem_write32 (STM32Lx_FLASH_PECR flash_base)
        (STM32Lx_FLASH_PECR_ERASE OR STM32Lx_FLASH_PECR_DATA),
      Mem_read32 (STM32Lx_FLASH_PECR flash_base)]"

definition eeprom_trigger_events :: "target_addr \<Rightarrow> word32 \<Rightarrow> nat \<Rightarrow> event list" where
  "eeprom_trigger_events addr blocksize n =
     map (\<lambda>k. Mem_write32 ((addr AND NOT 3) + word_of_nat (k * unat blocksize)) 0) [0 ..< n]"





section \<open>LPC546xx: the region's operations and the reset sequence\<close>








section \<open>Unfolding rules\<close>

lemmas transport_defs =
  emit_def target_mem32_write32_def target_mem32_write16_def target_mem32_write8_def
  target_mem32_write_def target_mem32_read32_def target_check_error_def
  target_print_progress_def platform_timeout_set_def tc_printf_def target_reset_def
  target_halt_resume_def cortexm_attach_def lpc_flash_erase_def
  lpc_flash_write_magic_vect_def

lemmas script_defs =
  script_read_def script_write_def script_check_def script_call_def script_env_def
  script_world_def

lemmas lpc_consts =
  LPC546XX_WDT_MODE_def LPC546XX_WDT_CNT_def LPC546XX_WDT_PERIOD_MAX_def
  LPC546XX_WDT_PROTECT_def LPC546XX_MAINCLKSELA_def LPC546XX_MAINCLKSELB_def
  LPC546XX_AHBCLKDIV_def LPC546XX_FLASHCFG_def

lemmas stm32_consts =
  STM32Lx_FLASH_BANK_BASE_def STM32Lx_FLASH_OPT_BASE_def STM32Lx_FLASH_EEPROM_BASE_def
  STM32L0_FLASH_BASE_def STM32L1_FLASH_BASE_def STM32L0_FLASH_OPT_SIZE_def
  STM32L1_FLASH_OPT_SIZE_def STM32Lx_FLASH_PECR_def STM32Lx_FLASH_PEKEYR_def
  STM32Lx_FLASH_PRGKEYR_def STM32Lx_FLASH_OPTKEYR_def STM32Lx_FLASH_SR_def
  STM32Lx_FLASH_OPTR_def STM32Lx_FLASH_PEKEY1_def STM32Lx_FLASH_PEKEY2_def
  STM32Lx_FLASH_PRGKEY1_def STM32Lx_FLASH_PRGKEY2_def STM32Lx_FLASH_OPTKEY1_def
  STM32Lx_FLASH_OPTKEY2_def STM32Lx_FLASH_PECR_OBL_LAUNCH_def STM32Lx_FLASH_PECR_FPRG_def
  STM32Lx_FLASH_PECR_ERASE_def STM32Lx_FLASH_PECR_FIX_def STM32Lx_FLASH_PECR_DATA_def
  STM32Lx_FLASH_PECR_PROG_def STM32Lx_FLASH_PECR_OPTLOCK_def STM32Lx_FLASH_PECR_PRGLOCK_def
  STM32Lx_FLASH_PECR_PELOCK_def STM32Lx_FLASH_SR_NOTZEROERR_def STM32Lx_FLASH_SR_SIZERR_def
  STM32Lx_FLASH_SR_PGAERR_def STM32Lx_FLASH_SR_WRPERR_def STM32Lx_FLASH_SR_BSY_def
  STM32Lx_FLASH_SR_ERR_MASK_def STM32Lx_FLASH_OPTR_RDPROT_MASK_def
  STM32Lx_FLASH_OPTR_RDPROT_0_def STM32Lx_FLASH_OPTR_RDPROT_2_def
  STM32Lx_FLASH_OPTR_RDPROT_SHIFT_def

lemmas stm32_ids =
  stm32lx_flash_base_def stm32lx_is_stm32l1_def stm32lx_nvm_option_size_def
  stm32lx_nvm_eeprom_size_def

section \<open>LPC546xx: console commands without a sector argument\<close>

text \<open>
  Claim C10. When \<^verbatim>\<open>erase_sector\<close> and \<^verbatim>\<open>write_sector\<close> are invoked with no sector
  argument (\<open>argc \<le> 1\<close>), they return success and leave the world as it was: no
  event is added to the trace and the device state is unchanged, so no flash
  operation and no device access took place.
\<close>

theorem sector_commands_without_argument:
  assumes "argc \<le> 1"
  shows "lpc546xx_cmd_erase_sector env t argc argv w = Inr (True, w) \<and>
         lpc546xx_cmd_write_sector env calloc_ok t argc argv w = Inr (True, w)"
  using assms by (simp add: lpc546xx_cmd_erase_sector_def lpc546xx_cmd_write_sector_def)

theorem sector_commands_without_argument_witness:
  "(1::int) \<le> 1 \<and>
   lpc546xx_cmd_erase_sector script_env lpc_demo_target 1 [''erase_sector'']
       (script_world [] [] [])
     = Inr (True, script_world [] [] []) \<and>
   lpc546xx_cmd_write_sector script_env True lpc_demo_target 1 [''write_sector'']
       (script_world [] [] [])
     = Inr (True, script_world [] [] [])"
  using sector_commands_without_argument
          [of 1 script_env lpc_demo_target "[''erase_sector'']" "script_world [] [] []" True]
        sector_commands_without_argument
          [of 1 script_env lpc_demo_target "[''write_sector'']" "script_world [] [] []" True]
  by simp

section \<open>Runs as events made on the transport\<close>

text \<open>
  Each primitive of the transport layer is the world after its one event has been
  made on the transport, together with what the transport answered. A run stated
  as \<open>perform env evs w\<close> therefore fixes the trace and the device state at once:
  a call that is logged but not made, or made but not logged, gives another world.
\<close>

lemma replay_Nil: "replay env [] d = d"
  by (simp add: replay_def)

lemma replay_Cons: "replay env (ev # evs) d = replay env evs (apply_event env ev d)"
  by (simp add: replay_def)

lemma replay_append: "replay env (xs @ ys) d = replay env ys (replay env xs d)"
  by (simp add: replay_def)

lemma dev_perform: "dev (perform env evs w) = replay env evs (dev w)"
  by (simp add: perform_def)

lemma trace_perform: "trace (perform env evs w) = trace w @ evs"
  by (simp add: perform_def)

lemma perform_Nil: "perform env [] w = w"
  by (simp add: perform_def replay_def)

lemma perform_perform: "perform env ys (perform env xs w) = perform env (xs @ ys) w"
  by (simp add: perform_def replay_def)

lemma write32_perform:
  "target_mem32_write32 env a v w =
     (fst (e_write32 env a v (dev w)), perform env [Mem_write32 a v] w)"
  by (simp add: target_mem32_write32_def emit_def perform_def replay_def split: prod.split)

lemma write16_perform:
  "target_mem32_write16 env a v w =
     (fst (e_write16 env a v (dev w)), perform env [Mem_write16 a v] w)"
  by (simp add: target_mem32_write16_def emit_def perform_def replay_def split: prod.split)

lemma write8_perform:
  "target_mem32_write8 env a v w =
     (fst (e_write8 env a v (dev w)), perform env [Mem_write8 a v] w)"
  by (simp add: target_mem32_write8_def emit_def perform_def replay_def split: prod.split)

lemma read32_perform:
  "target_mem32_read32 env a w =
     (fst (e_read32 env a (dev w)), perform env [Mem_read32 a] w)"
  by (simp add: target_mem32_read32_def emit_def perform_def replay_def split: prod.split)

lemma check_error_perform:
  "target_check_error env w =
     (fst (e_check_error env (dev w)), perform env [Check_error] w)"
  by (simp add: target_check_error_def emit_def perform_def replay_def split: prod.split)

lemma print_progress_perform: "target_print_progress w = perform env [Print_progress] w"
  by (simp add: target_print_progress_def emit_def perform_def replay_def)

lemma timeout_set_perform: "platform_timeout_set ms w = perform env [Timeout_set ms] w"
  by (simp add: platform_timeout_set_def emit_def perform_def replay_def)


lemma target_reset_perform: "target_reset env w = perform env [Target_reset] w"
  by (simp add: target_reset_def emit_def perform_def replay_def)

lemma halt_resume_perform:
  "target_halt_resume env step w = perform env [Target_halt_resume step] w"
  by (simp add: target_halt_resume_def emit_def perform_def replay_def)

lemma cortexm_attach_perform:
  "cortexm_attach env w =
     (fst (e_cortexm_attach env (dev w)), perform env [Cortexm_attach] w)"
  by (simp add: cortexm_attach_def emit_def perform_def replay_def split: prod.split)

lemmas perform_rules =
  write32_perform write16_perform write8_perform read32_perform check_error_perform
  target_reset_perform halt_resume_perform cortexm_attach_perform
  perform_perform dev_perform trace_perform

section \<open>LPC546xx: the reset and attach sequence\<close>






section \<open>LPC546xx: mass erase\<close>

lemma lpc546xx_mass_erase_result:
  assumes "t_flash t = f # rest"
  shows "\<exists>w'. lpc546xx_mass_erase env t w =
           Inr (\<not> fst (lpc546xx_flash_erase env f (f_start f) (f_length f) w), w')"
  using assms
  by (cases "lpc546xx_flash_erase env f (f_start f) (f_length f) w")
     (simp add: lpc546xx_mass_erase_def Let_def)

text \<open>
  Claim C2, on the code. \<^verbatim>\<open>lpc546xx_mass_erase\<close> stores the boolean of
  \<^verbatim>\<open>lpc546xx_flash_erase\<close> in an \<^verbatim>\<open>int\<close> and returns \<^verbatim>\<open>result == 0\<close>. On a device
  where every transport call succeeds the erase of the whole region reports
  success, and the mass erase prints the error message and returns \<open>False\<close>; where
  the ROM erase call fails, the mass erase returns \<open>True\<close>.
\<close>

theorem lpc546xx_mass_erase_inverted:
  "observe (lpc546xx_mass_erase script_env lpc_demo_target (script_world [] [] [])) =
     Inr (False,
       [Target_reset, Target_halt_resume False, Cortexm_attach,
        Mem_read32 0x4000c000,
        Mem_write32 0x40000280 0, Mem_write32 0x40000284 0,
        Mem_write32 0x40000380 0, Mem_write32 0x40000400 0x1a,
        Lpc_flash_erase 0 0x40000,
        Tc_printf ''Error erasing flash: %d\<newline>'' [Arg_int 1]]) \<and>
   fst (lpc546xx_flash_erase script_env lpc_demo_flash 0 0x40000 (script_world [] [] [])) = True \<and>
   observe (lpc546xx_mass_erase script_env lpc_demo_target
              (script_world [] [False, False, False, False, False, True] [])) =
     Inr (True,
       [Target_reset, Target_halt_resume False, Cortexm_attach,
        Mem_read32 0x4000c000,
        Mem_write32 0x40000280 0, Mem_write32 0x40000284 0,
        Mem_write32 0x40000380 0, Mem_write32 0x40000400 0x1a,
        Lpc_flash_erase 0 0x40000]) \<and>
   fst (lpc546xx_flash_erase script_env lpc_demo_flash 0 0x40000
          (script_world [] [False, False, False, False, False, True] [])) = False"
  by (simp add: lpc546xx_mass_erase_def lpc546xx_flash_erase_def lpc546xx_flash_init_def
      lpc546xx_reset_attach_def lpc546xx_wdt_set_period_def lpc_demo_target_def
      lpc_demo_flash_def transport_defs script_defs lpc_consts Let_def)

section \<open>STM32Lx: traces of the lock and unlock steps\<close>


lemma trace_prog_data_unlock:
  "trace (snd (stm32lx_nvm_prog_data_unlock env fb w)) = trace w @ prog_data_unlock_events fb"
  by (simp add: stm32lx_nvm_prog_data_unlock_def prog_data_unlock_events_def transport_defs
      Let_def split: prod.split)

lemma trace_nvm_lock:
  "trace (stm32lx_nvm_lock env fb w) =
     trace w @ [Mem_write32 (STM32Lx_FLASH_PECR fb) STM32Lx_FLASH_PECR_PELOCK]"
  by (simp add: stm32lx_nvm_lock_def transport_defs split: prod.split)

section \<open>STM32Lx: mass erase of a protected device\<close>






section \<open>STM32Lx: early returns that leave PECR unlocked\<close>

text \<open>
  Claim C1, on the code. Four runs on an STM32L0 in which the unlock is verified
  (PRGLOCK reads clear) and the function then returns \<open>False\<close> through an early
  \<^verbatim>\<open>return false\<close>: the arm read-back of \<^verbatim>\<open>stm32lx_flash_erase\<close> and of
  \<^verbatim>\<open>stm32lx_eeprom_erase\<close> does not show the mode bits, the first busy wait of
  \<^verbatim>\<open>stm32lx_flash_write\<close> finds a stale error flag (WRPERR), and a data write of
  \<^verbatim>\<open>stm32lx_eeprom_write\<close> reports a transport error. In each trace the key writes
  that unlock PECR are not followed by any write of PELOCK.
\<close>

theorem unlocked_on_early_return:
  "observe (stm32lx_flash_erase 1 script_env l0_demo_target l0_flash 0x08000000 0x80
              (script_world [0, 0] [] [])) =
     Inr (False,
       [Mem_write32 0x40022004 1, Mem_write32 0x4002200c 0x89abcdef,
        Mem_write32 0x4002200c 0x02030405, Mem_write32 0x40022010 0x8c9daebf,
        Mem_write32 0x40022010 0x13141516, Mem_read32 0x40022004,
        Mem_write32 0x40022004 0x208, Mem_read32 0x40022004]) \<and>
   observe (stm32lx_flash_write 1 script_env l0_demo_target l0_flash 0x08000000 [1, 2, 3, 4] 4
              (script_world [0, 0x100, 0x100] [] [])) =
     Inr (False,
       [Mem_write32 0x40022004 1, Mem_write32 0x4002200c 0x89abcdef,
        Mem_write32 0x4002200c 0x02030405, Mem_write32 0x40022010 0x8c9daebf,
        Mem_write32 0x40022010 0x13141516, Mem_read32 0x40022004,
        Mem_read32 0x40022018, Mem_read32 0x40022018, Check_error]) \<and>
   observe (stm32lx_eeprom_erase 1 script_env l0_demo_target l0_eeprom_flash 0x08080000 4
              (script_world [0, 0] [] [])) =
     Inr (False,
       [Mem_write32 0x40022004 1, Mem_write32 0x4002200c 0x89abcdef,
        Mem_write32 0x4002200c 0x02030405, Mem_write32 0x40022010 0x8c9daebf,
        Mem_write32 0x40022010 0x13141516, Mem_read32 0x40022004,
        Mem_write32 0x40022004 0x210, Mem_read32 0x40022004]) \<and>
   observe (stm32lx_eeprom_write 3 script_env l0_demo_target l0_eeprom_flash 0x08080000
              [0x11111111] 4
              (script_world [0] [False, False, False, False, False, False, True] [])) =
     Inr (False,
       [Mem_write32 0x40022004 1, Mem_write32 0x4002200c 0x89abcdef,
        Mem_write32 0x4002200c 0x02030405, Mem_write32 0x40022010 0x8c9daebf,
        Mem_write32 0x40022010 0x13141516, Mem_read32 0x40022004,
        Mem_write32 0x40022004 0x10, Mem_write32 0x08080000 0x11111111])"
  by code_simp

section \<open>STM32Lx: the source index of the bulk EEPROM write\<close>

text \<open>
  Claim C5, on the code. \<^verbatim>\<open>stm32lx_eeprom_write\<close> reads \<^verbatim>\<open>data[offset]\<close> with the byte
  offset as the word index. With a five-word buffer and a payload of 8 bytes the
  second destination word (at \<open>dest + 4\<close>) receives source word 4, not source
  word 1; with a buffer of exactly the two payload words the second read is past
  the end of the buffer.
\<close>

theorem eeprom_write_source_index:
  "observe (stm32lx_eeprom_write 3 script_env l0_demo_target l0_eeprom_flash 0x08080000
              [0x11111111, 0x22222222, 0x33333333, 0x44444444, 0x55555555] 8
              (script_world [0] [] [])) =
     Inr (True,
       [Mem_write32 0x40022004 1, Mem_write32 0x4002200c 0x89abcdef,
        Mem_write32 0x4002200c 0x02030405, Mem_write32 0x40022010 0x8c9daebf,
        Mem_write32 0x40022010 0x13141516, Mem_read32 0x40022004,
        Mem_write32 0x40022004 0x10,
        Mem_write32 0x08080000 0x11111111, Mem_write32 0x08080004 0x55555555,
        Mem_write32 0x40022004 1,
        Mem_read32 0x40022018, Mem_read32 0x40022018, Check_error]) \<and>
   observe (stm32lx_eeprom_write 3 script_env l0_demo_target l0_eeprom_flash 0x08080000
              [0x11111111, 0x22222222] 8 (script_world [0] [] [])) =
     Inl Out_of_bounds"
  by code_simp

section \<open>STM32Lx: the busy wait\<close>

lemma trace_busy_wait_ext:
  "stm32lx_nvm_busy_wait fuel env fb tmo w = Inr (r, w') \<Longrightarrow> \<exists>evs. trace w' = trace w @ evs"
proof (induction fuel arbitrary: w)
  case 0
  then show ?case by simp
next
  case (Suc fuel)
  obtain sr w1 where rd: "target_mem32_read32 env (STM32Lx_FLASH_SR fb) w = (sr, w1)"
    by (cases "target_mem32_read32 env (STM32Lx_FLASH_SR fb) w")
  have t1: "trace w1 = trace w @ [Mem_read32 (STM32Lx_FLASH_SR fb)]"
    using rd by (auto simp add: transport_defs split: prod.splits)
  show ?case
  proof (cases "sr AND STM32Lx_FLASH_SR_BSY \<noteq> 0")
    case True
    obtain err w2 where ce: "target_check_error env w1 = (err, w2)"
      by (cases "target_check_error env w1")
    have t2: "trace w2 = trace w1 @ [Check_error]"
      using ce by (auto simp add: transport_defs split: prod.splits)
    show ?thesis
    proof (cases err)
      case True
      with Suc.prems rd ce \<open>sr AND STM32Lx_FLASH_SR_BSY \<noteq> 0\<close> have "w' = w2" by simp
      then show ?thesis using t1 t2 by simp
    next
      case False
      define w3 where "w3 = (if tmo then target_print_progress w2 else w2)"
      have t3: "\<exists>evs. trace w3 = trace w2 @ evs"
        by (simp add: w3_def transport_defs)
      from Suc.prems rd ce False \<open>sr AND STM32Lx_FLASH_SR_BSY \<noteq> 0\<close>
      have "stm32lx_nvm_busy_wait fuel env fb tmo w3 = Inr (r, w')"
        by (simp add: w3_def)
      from Suc.IH [OF this] t3 t2 t1 show ?thesis by auto
    qed
  next
    case False
    obtain st w2 where rd2: "target_mem32_read32 env (STM32Lx_FLASH_SR fb) w1 = (st, w2)"
      by (cases "target_mem32_read32 env (STM32Lx_FLASH_SR fb) w1")
    obtain err w3 where ce: "target_check_error env w2 = (err, w3)"
      by (cases "target_check_error env w2")
    have t2: "trace w2 = trace w1 @ [Mem_read32 (STM32Lx_FLASH_SR fb)]"
      using rd2 by (auto simp add: transport_defs split: prod.splits)
    have t3: "trace w3 = trace w2 @ [Check_error]"
      using ce by (auto simp add: transport_defs split: prod.splits)
    from Suc.prems rd rd2 ce False have "w' = w3" by simp
    then show ?thesis using t1 t2 t3 by simp
  qed
qed

text \<open>
  The lock and the two unlock sequences as events made on the transport, and the
  busy wait on a device that is busy for \<open>p\<close> polls: with more than \<open>p\<close> units of
  fuel it returns, after the polls of \<open>wait_events\<close>, the verdict of the status
  register and of the transport.
\<close>

lemma nvm_lock_perform:
  "stm32lx_nvm_lock env fb w =
     perform env [Mem_write32 (STM32Lx_FLASH_PECR fb) STM32Lx_FLASH_PECR_PELOCK] w"
  by (simp add: stm32lx_nvm_lock_def perform_rules)

lemma prog_data_unlock_perform:
  "snd (stm32lx_nvm_prog_data_unlock env fb w) = perform env (prog_data_unlock_events fb) w"
  by (simp add: stm32lx_nvm_prog_data_unlock_def prog_data_unlock_events_def perform_rules
      Let_def)


lemma wait_polls_Suc:
  "wait_polls fb tmo (Suc p) =
     [Mem_read32 (STM32Lx_FLASH_SR fb), Check_error] @
     (if tmo then [Print_progress] else []) @ wait_polls fb tmo p"
  by (simp add: wait_polls_def)

lemma busy_wait_returns:
  "busy_for env fb p (dev w) \<Longrightarrow> p < fuel \<Longrightarrow>
   stm32lx_nvm_busy_wait fuel env fb tmo w =
     Inr (wait_verdict env fb tmo p (dev w), perform env (wait_events fb tmo p) w)"
proof (induction p arbitrary: fuel w)
  case 0
  then obtain f where f: "fuel = Suc f" by (cases fuel) auto
  from 0 show ?case
    by (simp add: f perform_rules wait_verdict_def wait_events_def wait_polls_def
        replay_def)
next
  case (Suc p)
  then obtain f where f: "fuel = Suc f" and pf: "p < f" by (cases fuel) auto
  define w3 where "w3 = perform env ([Mem_read32 (STM32Lx_FLASH_SR fb), Check_error] @
      (if tmo then [Print_progress] else [])) w"
  have d3: "dev w3 = snd (e_check_error env (snd (e_read32 env (STM32Lx_FLASH_SR fb) (dev w))))"
    by (simp add: w3_def dev_perform replay_def)
  from Suc.prems(1) have b: "busy_for env fb p (dev w3)"
    and busy: "fst (e_read32 env (STM32Lx_FLASH_SR fb) (dev w)) AND STM32Lx_FLASH_SR_BSY \<noteq> 0"
    and noerr: "\<not> fst (e_check_error env (snd (e_read32 env (STM32Lx_FLASH_SR fb) (dev w))))"
    by (simp_all add: d3)
  have step: "stm32lx_nvm_busy_wait fuel env fb tmo w = stm32lx_nvm_busy_wait f env fb tmo w3"
    using busy noerr
    by (simp add: f perform_rules w3_def print_progress_perform [of _ env] replay_def)
  have v: "wait_verdict env fb tmo (Suc p) (dev w) = wait_verdict env fb tmo p (dev w3)"
    by (simp add: wait_verdict_def wait_polls_Suc w3_def dev_perform replay_append replay_Cons
        replay_Nil)
  have e: "perform env (wait_events fb tmo p) w3 = perform env (wait_events fb tmo (Suc p)) w"
    by (simp add: w3_def perform_perform wait_events_def wait_polls_Suc)
  from Suc.IH [OF b pf] step v e show ?case by simp
qed

section \<open>STM32Lx: EEPROM erase triggers\<close>

lemma ceil_div_less:
  "0 < (b::nat) \<Longrightarrow> (j < (l + b - 1) div b) = (j * b < l)"
proof -
  assume b: "0 < b"
  have "(j < (l + b - 1) div b) = (Suc j \<le> (l + b - 1) div b)" by auto
  also have "\<dots> = (Suc j * b \<le> l + b - 1)"
    using b by (simp only: less_eq_div_iff_mult_less_eq)
  also have "\<dots> = (j * b < l)" using b by (cases b) auto
  finally show ?thesis .
qed

lemma eeprom_erase_loop_perform:
  assumes bs: "0 < unat bs" and nowrap: "unat len + unat bs \<le> 2 ^ 32"
  shows "unat off = j * unat bs \<Longrightarrow>
         (unat len + unat bs - 1) div unat bs - j < fuel \<Longrightarrow>
         stm32lx_eeprom_erase_loop fuel env a len bs off w =
           Inr (perform env
                  (map (\<lambda>k. Mem_write32 (a + word_of_nat (k * unat bs)) 0)
                     [j ..< (unat len + unat bs - 1) div unat bs]) w)"
proof (induction fuel arbitrary: off j w)
  case 0
  then show ?case by simp
next
  case (Suc fuel)
  let ?n = "(unat len + unat bs - 1) div unat bs"
  have lt_iff: "(off < len) = (j < ?n)"
    using ceil_div_less [OF bs, of j "unat len"] Suc.prems(1)
    by (simp add: word_less_nat_alt)
  show ?case
  proof (cases "off < len")
    case True
    then have jn: "j < ?n" using lt_iff by simp
    have "unat off + unat bs < 2 ^ 32"
      using True nowrap by (simp add: word_less_nat_alt)
    then have "unat (off + bs) = unat off + unat bs"
      by (simp add: unat_add_lem [THEN iffD1])
    then have step: "unat (off + bs) = Suc j * unat bs"
      using Suc.prems(1) by simp
    have fuel: "?n - Suc j < fuel" using Suc.prems(2) jn by arith
    have "word_of_nat (unat off) = off" by simp
    then have off: "off = word_of_nat (j * unat bs)"
      using Suc.prems(1) by simp
    have "stm32lx_eeprom_erase_loop (Suc fuel) env a len bs off w =
          stm32lx_eeprom_erase_loop fuel env a len bs (off + bs)
            (perform env [Mem_write32 (a + off) 0] w)"
      using True by (simp add: perform_rules)
    also have "\<dots> = Inr (perform env
                  (map (\<lambda>k. Mem_write32 (a + word_of_nat (k * unat bs)) 0) [Suc j ..< ?n])
                  (perform env [Mem_write32 (a + off) 0] w))"
      by (rule Suc.IH [OF step fuel])
    also have "\<dots> = Inr (perform env
                  (map (\<lambda>k. Mem_write32 (a + word_of_nat (k * unat bs)) 0) [j ..< ?n]) w)"
      using jn off by (simp add: perform_perform upt_conv_Cons)
    finally show ?thesis .
  next
    case False
    then have "\<not> j < ?n" using lt_iff by simp
    with False show ?thesis by (simp add: perform_Nil)
  qed
qed

text \<open>
  Claim C8. Take an EEPROM erase request whose blocks do not wrap the 32-bit
  offset and a device that is busy for \<open>p\<close> polls after the erase, with fuel for the
  \<open>n\<close> blocks and the \<open>p\<close> polls. The erase returns, and its result is fixed by the
  device: when the unlock is not verified it fails after the unlock sequence, when
  the read-back of PECR does not show ERASE and DATA it fails after arming, and
  otherwise it makes on the transport the unlock sequence, the arming write and
  its read-back, the erase triggers, the PELOCK write and the polls of the wait,
  and returns the verdict of the wait. The erase triggers are writes of 0 to
  \<open>(addr AND NOT 3) + k * blocksize\<close>, in order, for exactly the \<open>k\<close> with
  \<open>k * blocksize < len\<close>: the start address is masked down to a 4-byte boundary
  before the first trigger, so for a misaligned \<open>addr\<close> the erased range starts
  below \<open>addr\<close> and ends before \<open>addr + len\<close>.
\<close>

theorem eeprom_erase_triggers:
  assumes bs: "f_blocksize flash \<noteq> 0"
      and nowrap: "unat len + unat (f_blocksize flash) \<le> 2 ^ 32"
      and n: "n = (unat len + unat (f_blocksize flash) - 1) div unat (f_blocksize flash)"
      and fuel: "n < fuel" "p < fuel"
      and busy: "busy_for env (stm32lx_flash_base t) p
                   (dev (perform env
                      (eeprom_arm_events (stm32lx_flash_base t) @
                       eeprom_trigger_events addr (f_blocksize flash) n @
                       [Mem_write32 (STM32Lx_FLASH_PECR (stm32lx_flash_base t))
                          STM32Lx_FLASH_PECR_PELOCK]) w))"
  shows "stm32lx_eeprom_erase fuel env t flash addr len w =
           (if \<not> fst (stm32lx_nvm_prog_data_unlock env (stm32lx_flash_base t) w)
            then Inr (False, perform env (prog_data_unlock_events (stm32lx_flash_base t)) w)
            else if fst (e_read32 env (STM32Lx_FLASH_PECR (stm32lx_flash_base t))
                           (dev (perform env
                              (prog_data_unlock_events (stm32lx_flash_base t) @
                               [Mem_write32 (STM32Lx_FLASH_PECR (stm32lx_flash_base t))
                                  (STM32Lx_FLASH_PECR_ERASE OR STM32Lx_FLASH_PECR_DATA)]) w)))
                      AND (STM32Lx_FLASH_PECR_ERASE OR STM32Lx_FLASH_PECR_DATA) \<noteq>
                    (STM32Lx_FLASH_PECR_ERASE OR STM32Lx_FLASH_PECR_DATA)
            then Inr (False, perform env (eeprom_arm_events (stm32lx_flash_base t)) w)
            else Inr (wait_verdict env (stm32lx_flash_base t) False p
                        (dev (perform env
                           (eeprom_arm_events (stm32lx_flash_base t) @
                            eeprom_trigger_events addr (f_blocksize flash) n @
                            [Mem_write32 (STM32Lx_FLASH_PECR (stm32lx_flash_base t))
                               STM32Lx_FLASH_PECR_PELOCK]) w)),
                      perform env
                        (eeprom_arm_events (stm32lx_flash_base t) @
                         eeprom_trigger_events addr (f_blocksize flash) n @
                         [Mem_write32 (STM32Lx_FLASH_PECR (stm32lx_flash_base t))
                            STM32Lx_FLASH_PECR_PELOCK] @
                         wait_events (stm32lx_flash_base t) False p) w)) \<and>
         eeprom_trigger_events addr (f_blocksize flash) n =
           map (\<lambda>k. Mem_write32 ((addr AND NOT 3) + word_of_nat (k * unat (f_blocksize flash))) 0)
             [0 ..< n] \<and>
         (\<forall>k. (k < n) = (k * unat (f_blocksize flash) < unat len))"
proof -
  define fb where "fb = stm32lx_flash_base t"
  define bsz where "bsz = f_blocksize flash"
  have bpos: "0 < unat bsz" using bs by (simp add: bsz_def unat_gt_0)
  have nw: "unat len + unat bsz \<le> 2 ^ 32" using nowrap by (simp add: bsz_def)
  have n': "n = (unat len + unat bsz - 1) div unat bsz" using n by (simp add: bsz_def)
  define u where "u = fst (stm32lx_nvm_prog_data_unlock env fb w)"
  have un: "stm32lx_nvm_prog_data_unlock env fb w =
              (u, perform env (prog_data_unlock_events fb) w)"
    using prog_data_unlock_perform [of env fb w]
    by (cases "stm32lx_nvm_prog_data_unlock env fb w") (simp add: u_def)
  define v where "v = fst (e_read32 env (STM32Lx_FLASH_PECR fb)
      (dev (perform env (prog_data_unlock_events fb @
         [Mem_write32 (STM32Lx_FLASH_PECR fb)
            (STM32Lx_FLASH_PECR_ERASE OR STM32Lx_FLASH_PECR_DATA)]) w)))"
  define w3 where "w3 = perform env (eeprom_arm_events fb) w"
  have loop: "stm32lx_eeprom_erase_loop fuel env (addr AND NOT 3) len bsz 0 w3 =
      Inr (perform env (eeprom_trigger_events addr bsz n) w3)"
    using eeprom_erase_loop_perform [OF bpos nw, of 0 0 fuel env "addr AND NOT 3" w3] fuel(1)
    by (simp add: n' eeprom_trigger_events_def)
  define w5 where "w5 = perform env (eeprom_arm_events fb @ eeprom_trigger_events addr bsz n @
      [Mem_write32 (STM32Lx_FLASH_PECR fb) STM32Lx_FLASH_PECR_PELOCK]) w"
  have b5: "busy_for env fb p (dev w5)"
    using busy by (simp add: w5_def fb_def bsz_def)
  have wait: "stm32lx_nvm_busy_wait fuel env fb False w5 =
      Inr (wait_verdict env fb False p (dev w5), perform env (wait_events fb False p) w5)"
    by (rule busy_wait_returns [OF b5 fuel(2)])
  have lock5: "stm32lx_nvm_lock env fb (perform env (eeprom_trigger_events addr bsz n) w3) = w5"
    by (simp add: nvm_lock_perform w3_def w5_def perform_perform)
  have main: "stm32lx_eeprom_erase fuel env t flash addr len w =
     (if \<not> u then Inr (False, perform env (prog_data_unlock_events fb) w)
      else if v AND (STM32Lx_FLASH_PECR_ERASE OR STM32Lx_FLASH_PECR_DATA) \<noteq>
                (STM32Lx_FLASH_PECR_ERASE OR STM32Lx_FLASH_PECR_DATA)
      then Inr (False, w3)
      else Inr (wait_verdict env fb False p (dev w5), perform env (wait_events fb False p) w5))"
    unfolding stm32lx_eeprom_erase_def fb_def [symmetric] bsz_def [symmetric] Let_def
    using un loop wait lock5
    by (simp add: perform_rules v_def w3_def eeprom_arm_events_def)
  have cnt: "\<forall>k. (k < n) = (k * unat bsz < unat len)"
    using ceil_div_less [OF bpos] by (simp add: n')
  from main cnt show ?thesis
    unfolding u_def v_def w3_def w5_def fb_def bsz_def
    by (simp add: perform_perform eeprom_trigger_events_def)
qed

theorem eeprom_erase_triggers_witness:
  "(f_blocksize l0_eeprom_flash \<noteq> 0) \<and>
   (unat (12 :: word32) + unat (f_blocksize l0_eeprom_flash) \<le> 2 ^ 32) \<and>
   ((3 :: nat) = (unat (12 :: word32) + unat (f_blocksize l0_eeprom_flash) - 1) div unat (f_blocksize l0_eeprom_flash)) \<and>
   ((3 :: nat) < 4) \<and>
   ((1 :: nat) < 4) \<and>
   (busy_for script_env (stm32lx_flash_base l0_demo_target) (1 :: nat)
                   (dev (perform script_env
                      (eeprom_arm_events (stm32lx_flash_base l0_demo_target) @
                       eeprom_trigger_events (0x08080006 :: word32) (f_blocksize l0_eeprom_flash) (3 :: nat) @
                       [Mem_write32 (STM32Lx_FLASH_PECR (stm32lx_flash_base l0_demo_target))
                          STM32Lx_FLASH_PECR_PELOCK]) (script_world [0, 0x210, 1] [] [])))) \<and>
   (stm32lx_eeprom_erase 4 script_env l0_demo_target l0_eeprom_flash (0x08080006 :: word32) (12 :: word32) (script_world [0, 0x210, 1] [] []) =
           (if \<not> fst (stm32lx_nvm_prog_data_unlock script_env (stm32lx_flash_base l0_demo_target) (script_world [0, 0x210, 1] [] []))
            then Inr (False, perform script_env (prog_data_unlock_events (stm32lx_flash_base l0_demo_target)) (script_world [0, 0x210, 1] [] []))
            else if fst (e_read32 script_env (STM32Lx_FLASH_PECR (stm32lx_flash_base l0_demo_target))
                           (dev (perform script_env
                              (prog_data_unlock_events (stm32lx_flash_base l0_demo_target) @
                               [Mem_write32 (STM32Lx_FLASH_PECR (stm32lx_flash_base l0_demo_target))
                                  (STM32Lx_FLASH_PECR_ERASE OR STM32Lx_FLASH_PECR_DATA)]) (script_world [0, 0x210, 1] [] []))))
                      AND (STM32Lx_FLASH_PECR_ERASE OR STM32Lx_FLASH_PECR_DATA) \<noteq>
                    (STM32Lx_FLASH_PECR_ERASE OR STM32Lx_FLASH_PECR_DATA)
            then Inr (False, perform script_env (eeprom_arm_events (stm32lx_flash_base l0_demo_target)) (script_world [0, 0x210, 1] [] []))
            else Inr (wait_verdict script_env (stm32lx_flash_base l0_demo_target) False (1 :: nat)
                        (dev (perform script_env
                           (eeprom_arm_events (stm32lx_flash_base l0_demo_target) @
                            eeprom_trigger_events (0x08080006 :: word32) (f_blocksize l0_eeprom_flash) (3 :: nat) @
                            [Mem_write32 (STM32Lx_FLASH_PECR (stm32lx_flash_base l0_demo_target))
                               STM32Lx_FLASH_PECR_PELOCK]) (script_world [0, 0x210, 1] [] []))),
                      perform script_env
                        (eeprom_arm_events (stm32lx_flash_base l0_demo_target) @
                         eeprom_trigger_events (0x08080006 :: word32) (f_blocksize l0_eeprom_flash) (3 :: nat) @
                         [Mem_write32 (STM32Lx_FLASH_PECR (stm32lx_flash_base l0_demo_target))
                            STM32Lx_FLASH_PECR_PELOCK] @
                         wait_events (stm32lx_flash_base l0_demo_target) False (1 :: nat)) (script_world [0, 0x210, 1] [] []))) \<and>
         eeprom_trigger_events (0x08080006 :: word32) (f_blocksize l0_eeprom_flash) (3 :: nat) =
           map (\<lambda>k. Mem_write32 (((0x08080006 :: word32) AND NOT 3) + word_of_nat (k * unat (f_blocksize l0_eeprom_flash))) 0)
             [0 ..< (3 :: nat)] \<and>
         (\<forall>k. (k < (3 :: nat)) = (k * unat (f_blocksize l0_eeprom_flash) < unat (12 :: word32)))) \<and>
   (stm32lx_eeprom_erase 4 script_env l0_demo_target l0_eeprom_flash 0x08080006 12
      (script_world [0, 0x210, 1] [] []) =
    Inr (True, \<lparr>dev = \<lparr>reads = [], write_errors = [], check_errors = []\<rparr>,
        trace = prog_data_unlock_events 0x40022000 @
          [Mem_write32 0x40022004 0x210, Mem_read32 0x40022004,
           Mem_write32 0x08080004 0, Mem_write32 0x08080008 0, Mem_write32 0x0808000c 0,
           Mem_write32 0x40022004 1,
           Mem_read32 0x40022018, Check_error,
           Mem_read32 0x40022018, Mem_read32 0x40022018, Check_error]\<rparr>))"
proof -
  have h1: "f_blocksize l0_eeprom_flash \<noteq> 0"
    by (simp add: l0_eeprom_flash_def)
  have h2: "unat (12 :: word32) + unat (f_blocksize l0_eeprom_flash) \<le> 2 ^ 32"
    by (simp add: l0_eeprom_flash_def)
  have h3: "(3 :: nat) = (unat (12 :: word32) + unat (f_blocksize l0_eeprom_flash) - 1) div unat (f_blocksize l0_eeprom_flash)"
    by (simp add: l0_eeprom_flash_def)
  have h4: "(3 :: nat) < 4"
    by simp
  have h5: "(1 :: nat) < 4"
    by simp
  have h6: "busy_for script_env (stm32lx_flash_base l0_demo_target) (1 :: nat)
                   (dev (perform script_env
                      (eeprom_arm_events (stm32lx_flash_base l0_demo_target) @
                       eeprom_trigger_events (0x08080006 :: word32) (f_blocksize l0_eeprom_flash) (3 :: nat) @
                       [Mem_write32 (STM32Lx_FLASH_PECR (stm32lx_flash_base l0_demo_target))
                          STM32Lx_FLASH_PECR_PELOCK]) (script_world [0, 0x210, 1] [] [])))"
    by code_simp
  note c = eeprom_erase_triggers [OF h1 h2 h3 h4 h5 h6]
  have x: "stm32lx_eeprom_erase 4 script_env l0_demo_target l0_eeprom_flash 0x08080006 12
      (script_world [0, 0x210, 1] [] []) =
    Inr (True, \<lparr>dev = \<lparr>reads = [], write_errors = [], check_errors = []\<rparr>,
        trace = prog_data_unlock_events 0x40022000 @
          [Mem_write32 0x40022004 0x210, Mem_read32 0x40022004,
           Mem_write32 0x08080004 0, Mem_write32 0x08080008 0, Mem_write32 0x0808000c 0,
           Mem_write32 0x40022004 1,
           Mem_read32 0x40022018, Check_error,
           Mem_read32 0x40022018, Mem_read32 0x40022018, Check_error]\<rparr>)"
    by code_simp
  show ?thesis
    by (rule conjI [OF h1 conjI [OF h2 conjI [OF h3 conjI [OF h4 conjI [OF h5 conjI [OF h6 conjI [OF c x]]]]]]])
qed

section \<open>STM32Lx: the console EEPROM command\<close>

lemma cmd_eeprom_usage_result:
  "\<exists>w'. cmd_eeprom_usage env t w = Inr (True, w') \<and>
     trace w' = trace w @ eeprom_usage_events t @
       [Mem_write32 (STM32Lx_FLASH_PECR (stm32lx_flash_base t)) STM32Lx_FLASH_PECR_PELOCK]"
  by (simp add: cmd_eeprom_usage_def cmd_eeprom_done_def eeprom_usage_events_def
      stm32lx_nvm_lock_def transport_defs Let_def split: prod.split)

text \<open>
  Claim C6, as amended. With four arguments and a verified unlock, the command
  rejects an address outside the EEPROM, a half-word write to an odd address and
  a word write to an address that is not 4-byte aligned: it prints the usage
  message (after \<^verbatim>\<open>Refusing to do unaligned write\<close> in the two alignment cases),
  returns \<open>True\<close>, and writes nothing to the EEPROM. Its register accesses are
  the unlock sequence at entry and the PELOCK write at exit, and no other.
\<close>

theorem cmd_eeprom_rejects:
  assumes unlocked: "fst (stm32lx_nvm_prog_data_unlock env (stm32lx_flash_base t) w)"
      and addr: "addr = word_of_int (e_strtoul env arg2)"
      and bad:
        "addr < STM32Lx_FLASH_EEPROM_BASE \<or>
         STM32Lx_FLASH_EEPROM_BASE + stm32lx_nvm_eeprom_size t \<le> addr \<or>
         (strncasecmp arg1 ''byte'' (length arg1) \<noteq> 0 \<and>
          strncasecmp arg1 ''halfword'' (length arg1) = 0 \<and> addr AND 1 \<noteq> 0) \<or>
         (strncasecmp arg1 ''byte'' (length arg1) \<noteq> 0 \<and>
          strncasecmp arg1 ''halfword'' (length arg1) \<noteq> 0 \<and>
          strncasecmp arg1 ''word'' (length arg1) = 0 \<and> addr AND 3 \<noteq> 0)"
  shows "\<exists>w'. stm32lx_cmd_eeprom fuel env t 4 [arg0, arg1, arg2, arg3] w = Inr (True, w') \<and>
           trace w' = trace w @ prog_data_unlock_events (stm32lx_flash_base t) @
             (if addr < STM32Lx_FLASH_EEPROM_BASE \<or>
                 STM32Lx_FLASH_EEPROM_BASE + stm32lx_nvm_eeprom_size t \<le> addr
              then [] else [Tc_printf ''Refusing to do unaligned write\<newline>'' []]) @
             eeprom_usage_events t @
             [Mem_write32 (STM32Lx_FLASH_PECR (stm32lx_flash_base t))
                STM32Lx_FLASH_PECR_PELOCK]"
proof -
  define fb where "fb = stm32lx_flash_base t"
  obtain w1 where un: "stm32lx_nvm_prog_data_unlock env fb w = (True, w1)"
    using unlocked by (cases "stm32lx_nvm_prog_data_unlock env fb w") (auto simp: fb_def)
  have t1: "trace w1 = trace w @ prog_data_unlock_events fb"
    using trace_prog_data_unlock [of env fb w] un by simp
  show ?thesis
  proof (cases "addr < STM32Lx_FLASH_EEPROM_BASE \<or>
                STM32Lx_FLASH_EEPROM_BASE + stm32lx_nvm_eeprom_size t \<le> addr")
    case True
    then have eq: "stm32lx_cmd_eeprom fuel env t 4 [arg0, arg1, arg2, arg3] w =
                   cmd_eeprom_usage env t w1"
      using un addr
      by (simp add: stm32lx_cmd_eeprom_def fb_def [symmetric] argv_at_def Let_def)
    from cmd_eeprom_usage_result [of env t w1] obtain w' where
      "cmd_eeprom_usage env t w1 = Inr (True, w')"
      "trace w' = trace w1 @ eeprom_usage_events t @
         [Mem_write32 (STM32Lx_FLASH_PECR (stm32lx_flash_base t)) STM32Lx_FLASH_PECR_PELOCK]"
      by blast
    with eq t1 True show ?thesis by (simp add: fb_def)
  next
    case False
    define w2 where "w2 = tc_printf ''Refusing to do unaligned write\<newline>'' [] w1"
    have t2: "trace w2 = trace w1 @ [Tc_printf ''Refusing to do unaligned write\<newline>'' []]"
      by (simp add: w2_def transport_defs)
    from False bad have eq: "stm32lx_cmd_eeprom fuel env t 4 [arg0, arg1, arg2, arg3] w =
                   cmd_eeprom_usage env t w2"
      using un addr
      by (auto simp add: stm32lx_cmd_eeprom_def fb_def [symmetric] argv_at_def Let_def w2_def)
    from cmd_eeprom_usage_result [of env t w2] obtain w' where
      "cmd_eeprom_usage env t w2 = Inr (True, w')"
      "trace w' = trace w2 @ eeprom_usage_events t @
         [Mem_write32 (STM32Lx_FLASH_PECR (stm32lx_flash_base t)) STM32Lx_FLASH_PECR_PELOCK]"
      by blast
    with eq t1 t2 False show ?thesis by (simp add: fb_def)
  qed
qed

theorem cmd_eeprom_rejects_witness:
  "(fst (stm32lx_nvm_prog_data_unlock script_env (stm32lx_flash_base l0_demo_target) (script_world [] [] []))) \<and>
   ((0x08080001 :: word32) = word_of_int (e_strtoul script_env ''0x08080001'')) \<and>
   ((0x08080001 :: word32) < STM32Lx_FLASH_EEPROM_BASE \<or>
         STM32Lx_FLASH_EEPROM_BASE + stm32lx_nvm_eeprom_size l0_demo_target \<le> (0x08080001 :: word32) \<or>
         (strncasecmp ''halfword'' ''byte'' (length ''halfword'') \<noteq> 0 \<and>
          strncasecmp ''halfword'' ''halfword'' (length ''halfword'') = 0 \<and> (0x08080001 :: word32) AND 1 \<noteq> 0) \<or>
         (strncasecmp ''halfword'' ''byte'' (length ''halfword'') \<noteq> 0 \<and>
          strncasecmp ''halfword'' ''halfword'' (length ''halfword'') \<noteq> 0 \<and>
          strncasecmp ''halfword'' ''word'' (length ''halfword'') = 0 \<and> (0x08080001 :: word32) AND 3 \<noteq> 0)) \<and>
   (\<exists>w'. stm32lx_cmd_eeprom 1 script_env l0_demo_target 4 [''eeprom'', ''halfword'', ''0x08080001'', ''0x1234''] (script_world [] [] []) = Inr (True, w') \<and>
           trace w' = trace (script_world [] [] []) @ prog_data_unlock_events (stm32lx_flash_base l0_demo_target) @
             (if (0x08080001 :: word32) < STM32Lx_FLASH_EEPROM_BASE \<or>
                 STM32Lx_FLASH_EEPROM_BASE + stm32lx_nvm_eeprom_size l0_demo_target \<le> (0x08080001 :: word32)
              then [] else [Tc_printf ''Refusing to do unaligned write\<newline>'' []]) @
             eeprom_usage_events l0_demo_target @
             [Mem_write32 (STM32Lx_FLASH_PECR (stm32lx_flash_base l0_demo_target))
                STM32Lx_FLASH_PECR_PELOCK])"
proof -
  have h1: "fst (stm32lx_nvm_prog_data_unlock script_env (stm32lx_flash_base l0_demo_target) (script_world [] [] []))"
    by code_simp
  have h2: "(0x08080001 :: word32) = word_of_int (e_strtoul script_env ''0x08080001'')"
    by code_simp
  have h3: "(0x08080001 :: word32) < STM32Lx_FLASH_EEPROM_BASE \<or>
         STM32Lx_FLASH_EEPROM_BASE + stm32lx_nvm_eeprom_size l0_demo_target \<le> (0x08080001 :: word32) \<or>
         (strncasecmp ''halfword'' ''byte'' (length ''halfword'') \<noteq> 0 \<and>
          strncasecmp ''halfword'' ''halfword'' (length ''halfword'') = 0 \<and> (0x08080001 :: word32) AND 1 \<noteq> 0) \<or>
         (strncasecmp ''halfword'' ''byte'' (length ''halfword'') \<noteq> 0 \<and>
          strncasecmp ''halfword'' ''halfword'' (length ''halfword'') \<noteq> 0 \<and>
          strncasecmp ''halfword'' ''word'' (length ''halfword'') = 0 \<and> (0x08080001 :: word32) AND 3 \<noteq> 0)"
    by code_simp
  note c = cmd_eeprom_rejects [OF h1 h2 h3]
  show ?thesis by (rule conjI [OF h1 conjI [OF h2 conjI [OF h3 c]]])
qed

text \<open>
  Claim C6, as stated, fails. A half-word write to the odd address \<open>0x08080001\<close>
  is rejected only after the unlock sequence has written PECR and the key
  registers and read PECR back.
\<close>

theorem cmd_eeprom_unlocks_before_rejecting:
  "observe (stm32lx_cmd_eeprom 1 script_env l0_demo_target 4
              [''eeprom'', ''halfword'', ''0x08080001'', ''0x1234''] (script_world [] [] [])) =
     Inr (True,
       [Mem_write32 0x40022004 1, Mem_write32 0x4002200c 0x89abcdef,
        Mem_write32 0x4002200c 0x02030405, Mem_write32 0x40022010 0x8c9daebf,
        Mem_write32 0x40022010 0x13141516, Mem_read32 0x40022004,
        Tc_printf ''Refusing to do unaligned write\<newline>'' [],
        Tc_printf ''usage: monitor eeprom [ARGS]\<newline>'' [],
        Tc_printf ''  byte     <addr> <value8>  - Write a byte\<newline>'' [],
        Tc_printf ''  halfword <addr> <value16> - Write a half-word\<newline>'' [],
        Tc_printf ''  word     <addr> <value32> - Write a word\<newline>'' [],
        Tc_printf ''The value of <addr> must in the interval [0x%08x, 0x%x)\<newline>''
          [Arg_u32 0x08080000, Arg_u32 0x08080800],
        Mem_write32 0x40022004 1])"
  by code_simp

section \<open>STM32L1: what the probe installs on a protected device\<close>

lemma trace_flash_erase_loop_ext:
  "stm32lx_flash_erase_loop fuel env a len bs full off w = Inr w' \<Longrightarrow>
   \<exists>evs. trace w' = trace w @ evs"
proof (induction fuel arbitrary: off w)
  case 0
  then show ?case by simp
next
  case (Suc fuel)
  show ?case
  proof (cases "off < len")
    case True
    define w2 where "w2 = (if full then target_print_progress
        (snd (target_mem32_write32 env (a + off) 0 w))
        else snd (target_mem32_write32 env (a + off) 0 w))"
    have t2: "\<exists>evs. trace w2 = trace w @ evs"
      by (simp add: w2_def transport_defs split: prod.split)
    from Suc.prems True
    have "stm32lx_flash_erase_loop fuel env a len bs full (off + bs) w2 = Inr w'"
      by (simp add: w2_def Let_def)
    from Suc.IH [OF this] t2 show ?thesis by auto
  next
    case False
    with Suc.prems show ?thesis by simp
  qed
qed

lemma flash_erase_accesses:
  assumes "stm32lx_flash_erase fuel env t f a len w = Inr (r, w')"
  shows "\<exists>rest. trace w' = trace w @ prog_data_unlock_events (stm32lx_flash_base t) @ rest"
proof -
  define fb where "fb = stm32lx_flash_base t"
  obtain u w1 where un: "stm32lx_nvm_prog_data_unlock env fb w = (u, w1)"
    by (cases "stm32lx_nvm_prog_data_unlock env fb w")
  have t1: "trace w1 = trace w @ prog_data_unlock_events fb"
    using trace_prog_data_unlock [of env fb w] un by simp
  have "\<exists>evs. trace w' = trace w1 @ evs"
  proof (cases u)
    case False
    with assms un show ?thesis by (simp add: stm32lx_flash_erase_def fb_def)
  next
    case True
    define w2 where "w2 = snd (target_mem32_write32 env (STM32Lx_FLASH_PECR fb)
                                (STM32Lx_FLASH_PECR_ERASE OR STM32Lx_FLASH_PECR_PROG) w1)"
    obtain v w3 where rd: "target_mem32_read32 env (STM32Lx_FLASH_PECR fb) w2 = (v, w3)"
      by (cases "target_mem32_read32 env (STM32Lx_FLASH_PECR fb) w2")
    have t3: "\<exists>evs. trace w3 = trace w1 @ evs"
      using rd by (auto simp add: w2_def transport_defs split: prod.splits)
    show ?thesis
    proof (cases "v AND (STM32Lx_FLASH_PECR_PROG OR STM32Lx_FLASH_PECR_ERASE) \<noteq>
                  (STM32Lx_FLASH_PECR_PROG OR STM32Lx_FLASH_PECR_ERASE)")
      case True
      with assms un \<open>u\<close> rd have "w' = w3"
        by (simp add: stm32lx_flash_erase_def fb_def [symmetric] w2_def [symmetric] Let_def)
      with t3 show ?thesis by simp
    next
      case False
      define w5 where "w5 = platform_timeout_set 500
          (snd (target_mem32_write32 env (STM32Lx_FLASH_SR fb) STM32Lx_FLASH_SR_ERR_MASK w3))"
      have t5: "\<exists>evs. trace w5 = trace w3 @ evs"
        by (simp add: w5_def transport_defs split: prod.split)
      from assms un \<open>u\<close> rd False obtain w6 where
        loop: "stm32lx_flash_erase_loop fuel env a len (f_blocksize f)
                 (a = f_start f \<and> len = f_length f) 0 w5 = Inr w6" and
        wait: "stm32lx_nvm_busy_wait fuel env fb (a = f_start f \<and> len = f_length f)
                 (stm32lx_nvm_lock env fb w6) = Inr (r, w')"
        by (auto simp add: stm32lx_flash_erase_def fb_def [symmetric] w2_def [symmetric]
            w5_def [symmetric] Let_def split: sum.splits)
      from trace_flash_erase_loop_ext [OF loop] trace_busy_wait_ext [OF wait] t5 t3
      show ?thesis by (auto simp add: trace_nvm_lock)
    qed
  qed
  with t1 show ?thesis by (auto simp add: fb_def)
qed

lemma flash_write_accesses:
  assumes "stm32lx_flash_write fuel env t f a src len w = Inr (r, w')"
  shows "\<exists>rest. trace w' = trace w @ prog_data_unlock_events (stm32lx_flash_base t) @ rest"
proof -
  define fb where "fb = stm32lx_flash_base t"
  obtain u w1 where un: "stm32lx_nvm_prog_data_unlock env fb w = (u, w1)"
    by (cases "stm32lx_nvm_prog_data_unlock env fb w")
  have t1: "trace w1 = trace w @ prog_data_unlock_events fb"
    using trace_prog_data_unlock [of env fb w] un by simp
  have "\<exists>evs. trace w' = trace w1 @ evs"
  proof (cases u)
    case False
    with assms un show ?thesis by (simp add: stm32lx_flash_write_def fb_def)
  next
    case True
    from assms un True obtain idle w2 where
      bw: "stm32lx_nvm_busy_wait fuel env fb False w1 = Inr (idle, w2)"
      by (auto simp add: stm32lx_flash_write_def fb_def [symmetric] Let_def split: sum.splits)
    from trace_busy_wait_ext [OF bw] have t2: "\<exists>evs. trace w2 = trace w1 @ evs" .
    show ?thesis
    proof (cases idle)
      case False
      with assms un \<open>u\<close> bw have "w' = w2"
        by (simp add: stm32lx_flash_write_def fb_def [symmetric] Let_def)
      with t2 show ?thesis by simp
    next
      case True
      define w4 where "w4 = snd (target_mem32_write env a (take (unat len) src)
          (snd (target_mem32_write32 env (STM32Lx_FLASH_PECR fb)
                  (STM32Lx_FLASH_PECR_PROG OR STM32Lx_FLASH_PECR_FPRG) w2)))"
      have t4: "\<exists>evs. trace w4 = trace w2 @ evs"
        by (simp add: w4_def transport_defs split: prod.split)
      from assms un \<open>u\<close> bw True
      have "stm32lx_nvm_busy_wait fuel env fb False (stm32lx_nvm_lock env fb w4) = Inr (r, w')"
        by (auto simp add: stm32lx_flash_write_def fb_def [symmetric] w4_def Let_def
            split: if_splits)
      from trace_busy_wait_ext [OF this] t4 t2 show ?thesis
        by (auto simp add: trace_nvm_lock)
    qed
  qed
  with t1 show ?thesis by (auto simp add: fb_def)
qed

text \<open>
  Claim C4, as amended. \<^verbatim>\<open>stm32l1_probe\<close> registers the same flash region, with
  \<^verbatim>\<open>stm32lx_flash_erase\<close> and \<^verbatim>\<open>stm32lx_flash_write\<close> as its operations, whether or
  not the option register shows read protection; protection changes only
  \<^verbatim>\<open>attach\<close> and \<^verbatim>\<open>mass_erase\<close>. The erase and write of the region are not
  refused on a protected device: whenever they return, they have gone through
  the unlock sequence on the device registers.
\<close>

theorem probe_protected_surface:
  assumes probe: "stm32l1_probe env partno True True t w = (True, t', w')"
  shows "t_flash t' = t_flash t @ [l1_flash] \<and>
         (if fst (e_read32 env (STM32Lx_FLASH_OPTR STM32L1_FLASH_BASE) (dev w)) AND
               STM32Lx_FLASH_OPTR_RDPROT_MASK \<noteq> STM32Lx_FLASH_OPTR_RDPROT_0
          then t_attach t' = Some Fn_stm32lx_protected_attach \<and>
               t_mass_erase t' = Some Fn_stm32lx_protected_mass_erase
          else t_attach t' = t_attach t \<and> t_mass_erase t' = Some Fn_stm32lx_mass_erase) \<and>
         flash_erase_call fuel env t' l1_flash a len w0 =
           stm32lx_flash_erase fuel env t' l1_flash a len w0 \<and>
         flash_write_call fuel env t' l1_flash a src data len w0 =
           stm32lx_flash_write fuel env t' l1_flash a src len w0 \<and>
         (\<forall>r w1. flash_erase_call fuel env t' l1_flash a len w0 = Inr (r, w1) \<longrightarrow>
            (\<exists>rest. trace w1 = trace w0 @ prog_data_unlock_events STM32L1_FLASH_BASE @ rest)) \<and>
         (\<forall>r w1. flash_write_call fuel env t' l1_flash a src data len w0 = Inr (r, w1) \<longrightarrow>
            (\<exists>rest. trace w1 = trace w0 @ prog_data_unlock_events STM32L1_FLASH_BASE @ rest))"
proof -
  have pn: "partno = 0x416 \<or> partno = 0x429 \<or> partno = 0x427 \<or> partno = 0x436 \<or> partno = 0x437"
    using probe by (auto simp add: stm32l1_probe_def split: if_splits)
  define t3 where "t3 = (stm32l_add_flash True (t\<lparr>t_driver := ''STM32L1''\<rparr>)
                           STM32Lx_FLASH_BANK_BASE 0x80000 0x100)\<lparr>t_part_id := partno\<rparr>"
  have fl3: "t_flash t3 = t_flash t @ [l1_flash]"
    by (simp add: t3_def stm32l_add_flash_def target_add_flash_def l1_flash_def
        STM32Lx_FLASH_BANK_BASE_def)
  have id3: "t_part_id t3 = partno" "t_attach t3 = t_attach t"
    by (simp_all add: t3_def stm32l_add_flash_def target_add_flash_def)
  have base3: "stm32lx_flash_base (t3\<lparr>t_target_storage := Some []\<rparr>) = STM32L1_FLASH_BASE"
    using pn id3 by (auto simp add: stm32lx_flash_base_def stm32lx_is_stm32l1_def)
  obtain optr w1 where rd:
    "target_mem32_read32 env (STM32Lx_FLASH_OPTR STM32L1_FLASH_BASE) w = (optr, w1)"
    by (cases "target_mem32_read32 env (STM32Lx_FLASH_OPTR STM32L1_FLASH_BASE) w")
  have optr: "optr = fst (e_read32 env (STM32Lx_FLASH_OPTR STM32L1_FLASH_BASE) (dev w))"
    using rd by (auto simp add: transport_defs split: prod.splits)
  have shape: "t_flash t' = t_flash t3 \<and> t_part_id t' = partno \<and>
     (if optr AND STM32Lx_FLASH_OPTR_RDPROT_MASK \<noteq> STM32Lx_FLASH_OPTR_RDPROT_0
      then t_attach t' = Some Fn_stm32lx_protected_attach \<and>
           t_mass_erase t' = Some Fn_stm32lx_protected_mass_erase
      else t_attach t' = t_attach t3 \<and> t_mass_erase t' = Some Fn_stm32lx_mass_erase)"
    using probe pn rd base3 id3
    by (auto simp add: stm32l1_probe_def t3_def [symmetric] Let_def split: if_splits)
  then have base': "stm32lx_flash_base t' = STM32L1_FLASH_BASE"
    using pn by (auto simp add: stm32lx_flash_base_def stm32lx_is_stm32l1_def)
  have e: "flash_erase_call fuel env t' l1_flash a len w0 =
           stm32lx_flash_erase fuel env t' l1_flash a len w0"
    by (simp add: flash_erase_call_def l1_flash_def)
  have wr: "flash_write_call fuel env t' l1_flash a src data len w0 =
           stm32lx_flash_write fuel env t' l1_flash a src len w0"
    by (simp add: flash_write_call_def l1_flash_def)
  have ea: "\<forall>r w1. flash_erase_call fuel env t' l1_flash a len w0 = Inr (r, w1) \<longrightarrow>
            (\<exists>rest. trace w1 = trace w0 @ prog_data_unlock_events STM32L1_FLASH_BASE @ rest)"
    using flash_erase_accesses [of fuel env t' l1_flash a len w0] base' e by auto
  have wa: "\<forall>r w1. flash_write_call fuel env t' l1_flash a src data len w0 = Inr (r, w1) \<longrightarrow>
            (\<exists>rest. trace w1 = trace w0 @ prog_data_unlock_events STM32L1_FLASH_BASE @ rest)"
    using flash_write_accesses [of fuel env t' l1_flash a src len w0] base' wr by auto
  from shape fl3 id3 optr e wr ea wa show ?thesis by simp
qed

theorem probe_protected_surface_witness:
  "stm32l1_probe script_env 0x416 True True l1_demo_target (script_world [0x55] [] []) =
     (True, l1_protected_target,
      \<lparr>dev = \<lparr>reads = [], write_errors = [], check_errors = []\<rparr>,
       trace = [Mem_read32 0x40023c1c]\<rparr>) \<and>
   t_flash l1_protected_target = t_flash l1_demo_target @ [l1_flash] \<and>
   (if fst (e_read32 script_env (STM32Lx_FLASH_OPTR STM32L1_FLASH_BASE)
             (dev (script_world [0x55] [] []))) AND
         STM32Lx_FLASH_OPTR_RDPROT_MASK \<noteq> STM32Lx_FLASH_OPTR_RDPROT_0
    then t_attach l1_protected_target = Some Fn_stm32lx_protected_attach \<and>
         t_mass_erase l1_protected_target = Some Fn_stm32lx_protected_mass_erase
    else t_attach l1_protected_target = t_attach l1_demo_target \<and>
         t_mass_erase l1_protected_target = Some Fn_stm32lx_mass_erase) \<and>
   flash_erase_call 2 script_env l1_protected_target l1_flash 0x08000000 0x100
       (script_world [0, 0x208] [] []) =
     stm32lx_flash_erase 2 script_env l1_protected_target l1_flash 0x08000000 0x100
       (script_world [0, 0x208] [] []) \<and>
   (\<exists>rest.
      trace \<lparr>dev = \<lparr>reads = [], write_errors = [], check_errors = []\<rparr>,
             trace = prog_data_unlock_events 0x40023c00 @
               [Mem_write32 0x40023c04 0x208, Mem_read32 0x40023c04,
                Mem_write32 0x40023c18 0x10700, Timeout_set 500,
                Mem_write32 0x08000000 0, Mem_write32 0x40023c04 1,
                Mem_read32 0x40023c18, Mem_read32 0x40023c18, Check_error]\<rparr> =
      trace (script_world [0, 0x208] [] []) @
        prog_data_unlock_events STM32L1_FLASH_BASE @ rest)"
proof -
  have h: "stm32l1_probe script_env 0x416 True True l1_demo_target (script_world [0x55] [] []) =
     (True, l1_protected_target,
      \<lparr>dev = \<lparr>reads = [], write_errors = [], check_errors = []\<rparr>,
       trace = [Mem_read32 0x40023c1c]\<rparr>)"
    by code_simp
  note c = probe_protected_surface
             [OF h, of 2 "0x08000000" "0x100" "script_world [0, 0x208] [] []" "[]" "[]"]
  have run: "flash_erase_call 2 script_env l1_protected_target l1_flash 0x08000000 0x100
       (script_world [0, 0x208] [] []) =
     Inr (True,
       \<lparr>dev = \<lparr>reads = [], write_errors = [], check_errors = []\<rparr>,
        trace = prog_data_unlock_events 0x40023c00 @
          [Mem_write32 0x40023c04 0x208, Mem_read32 0x40023c04,
           Mem_write32 0x40023c18 0x10700, Timeout_set 500,
           Mem_write32 0x08000000 0, Mem_write32 0x40023c04 1,
           Mem_read32 0x40023c18, Mem_read32 0x40023c18, Check_error]\<rparr>)"
    by code_simp
  from c have c1: "t_flash l1_protected_target = t_flash l1_demo_target @ [l1_flash]"
    by (rule conjunct1)
  note c' = c [THEN conjunct2]
  from c' have c2: "(if fst (e_read32 script_env (STM32Lx_FLASH_OPTR STM32L1_FLASH_BASE)
             (dev (script_world [0x55] [] []))) AND
         STM32Lx_FLASH_OPTR_RDPROT_MASK \<noteq> STM32Lx_FLASH_OPTR_RDPROT_0
    then t_attach l1_protected_target = Some Fn_stm32lx_protected_attach \<and>
         t_mass_erase l1_protected_target = Some Fn_stm32lx_protected_mass_erase
    else t_attach l1_protected_target = t_attach l1_demo_target \<and>
         t_mass_erase l1_protected_target = Some Fn_stm32lx_mass_erase)"
    by (rule conjunct1)
  note c'' = c' [THEN conjunct2]
  from c'' have c3: "flash_erase_call 2 script_env l1_protected_target l1_flash 0x08000000 0x100
       (script_world [0, 0x208] [] []) =
     stm32lx_flash_erase 2 script_env l1_protected_target l1_flash 0x08000000 0x100
       (script_world [0, 0x208] [] [])"
    by (rule conjunct1)
  note c4 = c'' [THEN conjunct2, THEN conjunct2, THEN conjunct1, rule_format, OF run]
  show ?thesis by (rule conjI [OF h conjI [OF c1 conjI [OF c2 conjI [OF c3 c4]]]])
qed

text \<open>
  Claim C4, as stated, fails. On an STM32L1 probed as protected (the option
  register reads the protection byte \<open>0x55\<close>), the erase and the write of the
  flash region go through the unlock, arm and trigger sequence on the device
  registers and return \<open>True\<close>.
\<close>

theorem protected_erase_accesses_registers:
  "stm32l1_probe script_env 0x416 True True l1_demo_target (script_world [0x55] [] []) =
     (True, l1_protected_target,
      \<lparr>dev = \<lparr>reads = [], write_errors = [], check_errors = []\<rparr>,
       trace = [Mem_read32 0x40023c1c]\<rparr>) \<and>
   observe (flash_erase_call 2 script_env l1_protected_target l1_flash 0x08000000 0x100
              (script_world [0, 0x208] [] [])) =
     Inr (True,
       [Mem_write32 0x40023c04 1, Mem_write32 0x40023c0c 0x89abcdef,
        Mem_write32 0x40023c0c 0x02030405, Mem_write32 0x40023c10 0x8c9daebf,
        Mem_write32 0x40023c10 0x13141516, Mem_read32 0x40023c04,
        Mem_write32 0x40023c04 0x208, Mem_read32 0x40023c04,
        Mem_write32 0x40023c18 0x10700, Timeout_set 500,
        Mem_write32 0x08000000 0, Mem_write32 0x40023c04 1,
        Mem_read32 0x40023c18, Mem_read32 0x40023c18, Check_error]) \<and>
   observe (flash_write_call 2 script_env l1_protected_target l1_flash 0x08000000
              [1, 2, 3, 4] [] 4 (script_world [] [] [])) =
     Inr (True,
       [Mem_write32 0x40023c04 1, Mem_write32 0x40023c0c 0x89abcdef,
        Mem_write32 0x40023c0c 0x02030405, Mem_write32 0x40023c10 0x8c9daebf,
        Mem_write32 0x40023c10 0x13141516, Mem_read32 0x40023c04,
        Mem_read32 0x40023c18, Mem_read32 0x40023c18, Check_error,
        Mem_write32 0x40023c04 0x408, Mem_write 0x08000000 [1, 2, 3, 4],
        Mem_write32 0x40023c04 1,
        Mem_read32 0x40023c18, Mem_read32 0x40023c18, Check_error])"
  by code_simp

section \<open>STM32Lx: the option word\<close>












end
